theory Spec2Isabelle
  imports Main "HOL-Library.Sublist"
begin

section \<open>The API gateway of the wallet backend\<close>

text \<open>
  A shallow embedding of \<^verbatim>\<open>backend/handlers/handlers.go\<close> and of
  \<^verbatim>\<open>frontends/qt/server/server.go\<close>. Go strings are byte strings (\<open>string\<close>),
  Go's \<open>int\<close> is used for the port only and never computed with, so it is an \<open>int\<close>.
  Calls into libraries (net/http, encoding/json, regexp, crypto/x509, os) appear with their
  documented behaviour; what they return at run time (an error or a value) is a parameter
  of the model. Log output of handlers.go is not part of the model.
\<close>

subsection \<open>Connection data\<close>

record ConnectionData =
  port :: int
  token :: string
  devMode :: bool

definition NewConnectionData :: "int \<Rightarrow> string \<Rightarrow> ConnectionData" where
  "NewConnectionData p t = \<lparr>port = p, token = t, devMode = (length t = 0)\<rparr>"

definition isDev :: "ConnectionData \<Rightarrow> bool" where
  "isDev connectionData \<longleftrightarrow> port connectionData = -1 \<or> token connectionData = ''''"

subsection \<open>Requests and response writers\<close>

type_synonym header = "(string \<times> string) list"

record Request =
  reqMethod :: string
  urlPath :: string
  reqHeader :: header
  urlQuery :: "(string \<times> string) list"

text \<open>\<^verbatim>\<open>Header.Get\<close> and \<^verbatim>\<open>Values.Get\<close>: the first value of the key, the empty
  string when the key is absent.\<close>

definition Get :: "(string \<times> string) list \<Rightarrow> string \<Rightarrow> string" where
  "Get h k = (case map_of h k of None \<Rightarrow> '''' | Some v \<Rightarrow> v)"

text \<open>\<^verbatim>\<open>Header.Set\<close>: replaces the values of the key.\<close>

definition Set :: "header \<Rightarrow> string \<Rightarrow> string \<Rightarrow> header" where
  "Set h k v = (k, v) # filter (\<lambda>kv. fst kv \<noteq> k) h"

text \<open>
  What a handler hands to \<^verbatim>\<open>writeJSON\<close> is either a value returned by a business
  function or the map \<^verbatim>\<open>map[string]string{"error": msg}\<close>. The body of a response is the
  sequence of things written: JSON documents and the plain text lines of \<^verbatim>\<open>http.Error\<close>.
\<close>

datatype 'v payload = Value 'v | ErrorMap string

datatype 'v item = Text string | Doc "'v payload"

record 'v ResponseWriter =
  wHeader :: header
  wStatus :: "nat option"
  wBody :: "'v item list"

definition StatusOK :: nat where
  "StatusOK = 200"

definition StatusUnauthorized :: nat where
  "StatusUnauthorized = 401"

text \<open>\<^verbatim>\<open>WriteHeader\<close> fixes the status once; a \<^verbatim>\<open>Write\<close> before any
  \<^verbatim>\<open>WriteHeader\<close> sends the default status 200 first.\<close>

definition WriteHeader :: "'v ResponseWriter \<Rightarrow> nat \<Rightarrow> 'v ResponseWriter" where
  "WriteHeader w code = (case wStatus w of None \<Rightarrow> w\<lparr>wStatus := Some code\<rparr> | Some _ \<Rightarrow> w)"

definition Write :: "'v ResponseWriter \<Rightarrow> 'v item \<Rightarrow> 'v ResponseWriter" where
  "Write w x = (let w' = WriteHeader w StatusOK in w'\<lparr>wBody := wBody w' @ [x]\<rparr>)"

definition http_Error :: "'v ResponseWriter \<Rightarrow> string \<Rightarrow> nat \<Rightarrow> 'v ResponseWriter" where
  "http_Error w msg code =
     (let w1 = w\<lparr>wHeader := Set (wHeader w) ''Content-Type'' ''text/plain; charset=utf-8''\<rparr>;
          w2 = w1\<lparr>wHeader := Set (wHeader w1) ''X-Content-Type-Options'' ''nosniff''\<rparr>;
          w3 = WriteHeader w2 code
      in Write w3 (Text (msg @ [CHR 0x0A])))"

definition newResponseWriter :: "'v ResponseWriter" where
  "newResponseWriter = \<lparr>wHeader = [], wStatus = None, wBody = []\<rparr>"

subsection \<open>The token gate\<close>

text \<open>\<^verbatim>\<open>isAPITokenValid\<close> returns the writer it may have written to and its verdict.\<close>

definition isAPITokenValid ::
  "'v ResponseWriter \<Rightarrow> Request \<Rightarrow> ConnectionData \<Rightarrow> 'v ResponseWriter \<times> bool" where
  "isAPITokenValid w r apiData =
     (if devMode apiData then (w, True)
      else if length (Get (reqHeader r) ''Authorization'') = 0
        then (http_Error w (''missing token '' @ urlPath r) StatusUnauthorized, False)
      else if length (Get (reqHeader r) ''Authorization'') \<noteq> 0
              \<and> Get (reqHeader r) ''Authorization'' \<noteq> ''Basic '' @ token apiData
        then (http_Error w ''incorrect token'' StatusUnauthorized, False)
      else (w, True))"

text \<open>
  A transport handler takes the writer and the request; it returns the text of a panic
  that escapes it, if any, and the writer.
\<close>

type_synonym 'v httpHandler = "'v ResponseWriter \<Rightarrow> Request \<Rightarrow> string option \<times> 'v ResponseWriter"

definition ensureAPITokenValid :: "'v httpHandler \<Rightarrow> ConnectionData \<Rightarrow> 'v httpHandler" where
  "ensureAPITokenValid h apiData w r =
     (case isAPITokenValid w r apiData of
        (w', True) \<Rightarrow> h w' r
      | (w', False) \<Rightarrow> (None, w'))"

subsection \<open>The request dispatcher\<close>

text \<open>
  A business function returns a value and an error (\<open>Return v err\<close>, the error \<open>None\<close>
  for Go's \<^verbatim>\<open>nil\<close>) or panics with a value printed as text by \<^verbatim>\<open>%v\<close>.
\<close>

datatype 'v result = Return 'v "string option" | Panic string

type_synonym 'v apiFunc = "Request \<Rightarrow> 'v result"

text \<open>The Go values that the handlers modelled here return: \<^verbatim>\<open>nil\<close>, booleans, strings
  and maps from strings to values.\<close>

datatype goval = GoNil | GoBool bool | GoString string | GoMap "(string \<times> goval) list"

text \<open>
  \<^verbatim>\<open>json.Encoder.Encode\<close> builds the document first and writes it in one piece, or
  returns an error and writes nothing. \<open>jsonErr v\<close> is that error for a value of a business
  function; a map from strings to strings always encodes. \<^verbatim>\<open>writeJSON\<close> panics with
  the error.
\<close>

fun encodeError :: "('v \<Rightarrow> string option) \<Rightarrow> 'v payload \<Rightarrow> string option" where
  "encodeError jsonErr (Value v) = jsonErr v"
| "encodeError jsonErr (ErrorMap msg) = None"

definition writeJSON ::
  "('v \<Rightarrow> string option) \<Rightarrow> 'v ResponseWriter \<Rightarrow> 'v payload \<Rightarrow> string option \<times> 'v ResponseWriter" where
  "writeJSON jsonErr w x =
     (case encodeError jsonErr x of
        Some err \<Rightarrow> (Some err, w)
      | None \<Rightarrow> (None, Write w (Doc x)))"

text \<open>The body of the handler function of \<^verbatim>\<open>apiMiddleware\<close>, before the deferred call.\<close>

definition apiMiddleware_body ::
  "('v \<Rightarrow> string option) \<Rightarrow> bool \<Rightarrow> 'v apiFunc \<Rightarrow> 'v httpHandler" where
  "apiMiddleware_body jsonErr dev h w r =
     (let w1 = w\<lparr>wHeader := Set (wHeader w) ''Content-Type'' ''text/json''\<rparr>;
          w2 = (if dev
                then w1\<lparr>wHeader := Set (wHeader w1) ''Access-Control-Allow-Origin'' ''http://localhost:8080''\<rparr>
                else w1)
      in case h r of
           Panic t \<Rightarrow> (Some t, w2)
         | Return v (Some err) \<Rightarrow> writeJSON jsonErr w2 (ErrorMap err)
         | Return v None \<Rightarrow> writeJSON jsonErr w2 (Value v))"

text \<open>The deferred function recovers a panic of the body and writes it as an error.\<close>

definition apiMiddleware ::
  "('v \<Rightarrow> string option) \<Rightarrow> bool \<Rightarrow> 'v apiFunc \<Rightarrow> 'v httpHandler" where
  "apiMiddleware jsonErr dev h w r =
     (case apiMiddleware_body jsonErr dev h w r of
        (None, w') \<Rightarrow> (None, w')
      | (Some t, w') \<Rightarrow> writeJSON jsonErr w' (ErrorMap t))"

subsection \<open>The routes of NewHandlers\<close>

text \<open>
  A route is mounted either through the function returned by \<^verbatim>\<open>getAPIRouter\<close>, which
  wraps the business function in \<^verbatim>\<open>apiMiddleware\<close> and \<^verbatim>\<open>ensureAPITokenValid\<close>,
  or directly with \<^verbatim>\<open>HandleFunc\<close>.
\<close>

datatype 'v mount = ViaAPIRouter "'v apiFunc" | ViaHandleFunc "'v httpHandler"

record 'v Route =
  routePath :: string
  routeMethods :: "string list"
  routeMount :: "'v mount"

text \<open>The business functions of the static routes and the events handler.\<close>

record 'v Handlers =
  getQRCodeHandler :: "'v apiFunc"
  getAppConfigHandler :: "'v apiFunc"
  getDefaultConfigHandler :: "'v apiFunc"
  postAppConfigHandler :: "'v apiFunc"
  postOpenHandler_f :: "'v apiFunc"
  getUpdateHandler :: "'v apiFunc"
  getVersionHandler :: "'v apiFunc"
  getTestingHandler :: "'v apiFunc"
  postAddAccountHandler :: "'v apiFunc"
  getAccountsHandler :: "'v apiFunc"
  getAccountsStatusHandler :: "'v apiFunc"
  postRegisterTestKeystoreHandler :: "'v apiFunc"
  postDeregisterTestKeystoreHandler :: "'v apiFunc"
  getRatesHandler :: "'v apiFunc"
  getConvertToFiatHandler :: "'v apiFunc"
  getConvertFromFiatHandler_f :: "'v apiFunc"
  getHeadersStatus :: "string \<Rightarrow> 'v apiFunc"
  postCertsDownloadHandler :: "'v apiFunc"
  postCertsCheckHandler :: "'v apiFunc"
  getDevicesRegisteredHandler :: "'v apiFunc"
  eventsHandler :: "'v httpHandler"

definition api :: "string \<Rightarrow> string \<Rightarrow> 'v apiFunc \<Rightarrow> 'v Route" where
  "api path m f = \<lparr>routePath = ''/api'' @ path, routeMethods = [m], routeMount = ViaAPIRouter f\<rparr>"

text \<open>The static routes, in the order in which \<^verbatim>\<open>NewHandlers\<close> mounts them.\<close>

definition staticRoutes :: "'v Handlers \<Rightarrow> 'v Route list" where
  "staticRoutes hs =
     [api ''/qr'' ''GET'' (getQRCodeHandler hs),
      api ''/config'' ''GET'' (getAppConfigHandler hs),
      api ''/config/default'' ''GET'' (getDefaultConfigHandler hs),
      api ''/config'' ''POST'' (postAppConfigHandler hs),
      api ''/open'' ''POST'' (postOpenHandler_f hs),
      api ''/update'' ''GET'' (getUpdateHandler hs),
      api ''/version'' ''GET'' (getVersionHandler hs),
      api ''/testing'' ''GET'' (getTestingHandler hs),
      api ''/account-add'' ''POST'' (postAddAccountHandler hs),
      api ''/accounts'' ''GET'' (getAccountsHandler hs),
      api ''/accounts-status'' ''GET'' (getAccountsStatusHandler hs),
      api ''/test/register'' ''POST'' (postRegisterTestKeystoreHandler hs),
      api ''/test/deregister'' ''POST'' (postDeregisterTestKeystoreHandler hs),
      api ''/rates'' ''GET'' (getRatesHandler hs),
      api ''/coins/convertToFiat'' ''GET'' (getConvertToFiatHandler hs),
      api ''/coins/convertFromFiat'' ''GET'' (getConvertFromFiatHandler_f hs),
      api ''/coins/tltc/headers/status'' ''GET'' (getHeadersStatus hs ''tltc''),
      api ''/coins/tbtc/headers/status'' ''GET'' (getHeadersStatus hs ''tbtc''),
      api ''/coins/ltc/headers/status'' ''GET'' (getHeadersStatus hs ''ltc''),
      api ''/coins/btc/headers/status'' ''GET'' (getHeadersStatus hs ''btc''),
      api ''/certs/download'' ''POST'' (postCertsDownloadHandler hs),
      api ''/certs/check'' ''POST'' (postCertsCheckHandler hs),
      api ''/devices/registered'' ''GET'' (getDevicesRegisteredHandler hs),
      \<lparr>routePath = ''/api/events'', routeMethods = [], routeMount = ViaHandleFunc (eventsHandler hs)\<rparr>]"

text \<open>
  Handlers whose business functions all return \<^verbatim>\<open>nil, nil\<close> and whose events handler
  writes one line, to run the router on concrete requests.
\<close>

definition stubHandlers :: "unit Handlers" where
  "stubHandlers =
     \<lparr>getQRCodeHandler = (\<lambda>r. Return () None),
      getAppConfigHandler = (\<lambda>r. Return () None),
      getDefaultConfigHandler = (\<lambda>r. Return () None),
      postAppConfigHandler = (\<lambda>r. Return () None),
      postOpenHandler_f = (\<lambda>r. Return () None),
      getUpdateHandler = (\<lambda>r. Return () None),
      getVersionHandler = (\<lambda>r. Return () None),
      getTestingHandler = (\<lambda>r. Return () None),
      postAddAccountHandler = (\<lambda>r. Return () None),
      getAccountsHandler = (\<lambda>r. Return () None),
      getAccountsStatusHandler = (\<lambda>r. Return () None),
      postRegisterTestKeystoreHandler = (\<lambda>r. Return () None),
      postDeregisterTestKeystoreHandler = (\<lambda>r. Return () None),
      getRatesHandler = (\<lambda>r. Return () None),
      getConvertToFiatHandler = (\<lambda>r. Return () None),
      getConvertFromFiatHandler_f = (\<lambda>r. Return () None),
      getHeadersStatus = (\<lambda>coinCode r. Return () None),
      postCertsDownloadHandler = (\<lambda>r. Return () None),
      postCertsCheckHandler = (\<lambda>r. Return () None),
      getDevicesRegisteredHandler = (\<lambda>r. Return () None),
      eventsHandler = (\<lambda>w r. (None, Write w (Text ''events'')))\<rparr>"

text \<open>The transport handler that the router holds for a route.\<close>

fun mounted :: "('v \<Rightarrow> string option) \<Rightarrow> ConnectionData \<Rightarrow> 'v mount \<Rightarrow> 'v httpHandler" where
  "mounted jsonErr connData (ViaAPIRouter f) =
     ensureAPITokenValid (apiMiddleware jsonErr (isDev connData) f) connData"
| "mounted jsonErr connData (ViaHandleFunc g) = g"

text \<open>A route matches a request on its path and, when it names methods, on the method.\<close>

definition routeMatches :: "'v Route \<Rightarrow> Request \<Rightarrow> bool" where
  "routeMatches rt r \<longleftrightarrow>
     routePath rt = urlPath r \<and> (routeMethods rt = [] \<or> reqMethod r \<in> set (routeMethods rt))"

text \<open>The router serves a request with the first route that matches; \<open>None\<close> is its
  not-found answer.\<close>

fun serveHTTP ::
  "('v \<Rightarrow> string option) \<Rightarrow> ConnectionData \<Rightarrow> 'v Route list \<Rightarrow> 'v ResponseWriter \<Rightarrow> Request
     \<Rightarrow> (string option \<times> 'v ResponseWriter) option" where
  "serveHTTP jsonErr connData [] w r = None"
| "serveHTTP jsonErr connData (rt # rts) w r =
     (if routeMatches rt r then Some (mounted jsonErr connData (routeMount rt) w r)
      else serveHTTP jsonErr connData rts w r)"

text \<open>
  Whether the function mounted on a route is run for a request: behind the gate when the
  gate says so, always when the function is mounted directly.
\<close>

fun admitted :: "ConnectionData \<Rightarrow> 'v mount \<Rightarrow> Request \<Rightarrow> bool" where
  "admitted connData (ViaAPIRouter f) r = snd (isAPITokenValid (newResponseWriter :: 'v ResponseWriter) r connData)"
| "admitted connData (ViaHandleFunc g) r = True"

subsection \<open>The handler of /api/open\<close>

definition whitelistedURLs :: "string list" where
  "whitelistedURLs =
     [''https://shiftcrypto.ch/contact'',
      ''https://shiftcrypto.ch/shop'',
      ''https://shiftcrypto.ch/backup'',
      ''https://www.cryptocompare.com'',
      ''https://bitcoincore.org/en/2016/01/26/segwit-benefits/'',
      ''https://en.bitcoin.it/wiki/Bech32_adoption'']"

text \<open>
  The regexp library reads its pattern and its input rune by rune, as
  \<^verbatim>\<open>utf8.DecodeRuneInString\<close> decodes them. \<open>seqLen s\<close> is the number of bytes of the
  UTF-8 sequence at the head of \<open>s\<close>, and 0 when no sequence starts there: the first byte
  decides the length and the range of the second byte, the other bytes are continuation
  bytes. A byte that starts no sequence decodes to the replacement character U+FFFD with
  width 1.
\<close>

definition between :: "nat \<Rightarrow> char \<Rightarrow> nat \<Rightarrow> bool" where
  "between lo b hi \<longleftrightarrow> lo \<le> of_char b \<and> (of_char b :: nat) \<le> hi"

definition cont :: "char \<Rightarrow> bool" where
  "cont b \<longleftrightarrow> between 0x80 b 0xBF"

definition loSecond :: "char \<Rightarrow> nat" where
  "loSecond b0 =
     (if (of_char b0 :: nat) = 0xE0 then 0xA0 else if (of_char b0 :: nat) = 0xF0 then 0x90 else 0x80)"

definition hiSecond :: "char \<Rightarrow> nat" where
  "hiSecond b0 =
     (if (of_char b0 :: nat) = 0xED then 0x9F else if (of_char b0 :: nat) = 0xF4 then 0x8F else 0xBF)"

fun seqLen :: "string \<Rightarrow> nat" where
  "seqLen [] = 0"
| "seqLen (b0 # bs) =
     (if between 0x00 b0 0x7F then 1
      else if between 0xC2 b0 0xDF then
        (case bs of
           b1 # _ \<Rightarrow> if cont b1 then 2 else 0
         | _ \<Rightarrow> 0)
      else if between 0xE0 b0 0xEF then
        (case bs of
           b1 # b2 # _ \<Rightarrow> if between (loSecond b0) b1 (hiSecond b0) \<and> cont b2 then 3 else 0
         | _ \<Rightarrow> 0)
      else if between 0xF0 b0 0xF4 then
        (case bs of
           b1 # b2 # b3 # _ \<Rightarrow>
             if between (loSecond b0) b1 (hiSecond b0) \<and> cont b2 \<and> cont b3 then 4 else 0
         | _ \<Rightarrow> 0)
      else 0)"

text \<open>
  A rune is given by its UTF-8 sequence, since different sequences encode different
  characters; only the sequence EF BF BD encodes the replacement character itself, the
  rune that an undecodable byte reads as.
\<close>

datatype rune = Encoded string | RuneError

definition runeOf :: "string \<Rightarrow> rune" where
  "runeOf bs = (if bs = [CHR 0xEF, CHR 0xBF, CHR 0xBD] then RuneError else Encoded bs)"

fun runes :: "string \<Rightarrow> rune list" where
  "runes [] = []"
| "runes (b0 # bs) =
     (case seqLen (b0 # bs) of
        0 \<Rightarrow> RuneError # runes bs
      | Suc k \<Rightarrow> runeOf (b0 # take k bs) # runes (drop k bs))"

fun validUTF8 :: "string \<Rightarrow> bool" where
  "validUTF8 [] = True"
| "validUTF8 (b0 # bs) =
     (case seqLen (b0 # bs) of
        0 \<Rightarrow> False
      | Suc k \<Rightarrow> validUTF8 (drop k bs))"

text \<open>
  The patterns of the handler all have the shape \<^verbatim>\<open>^\<close>, then literal text (escaped where
  the character is special) and groups \<^verbatim>\<open>(text)?\<close>. A pattern is the list of its pieces
  after the anchor; \<^verbatim>\<open>regexp.QuoteMeta\<close> of a string is one literal piece.
  \<^verbatim>\<open>regexp.MustCompile\<close> panics on a pattern that is not valid UTF-8, which for these
  patterns means that a piece is not; the text of its panic is shortened here, it names the
  pattern as well.
\<close>

datatype piece = Lit string | Opt string

fun pieceText :: "piece \<Rightarrow> string" where
  "pieceText (Lit l) = l"
| "pieceText (Opt l) = l"

datatype Regexp = Regexp "piece list"

definition MustCompile :: "piece list \<Rightarrow> string + Regexp" where
  "MustCompile pattern =
     (if \<forall>p \<in> set pattern. validUTF8 (pieceText p) then Inr (Regexp pattern)
      else Inl ''regexp: Compile: error parsing regexp: invalid UTF-8'')"

fun matchPieces :: "piece list \<Rightarrow> rune list \<Rightarrow> bool" where
  "matchPieces [] s = True"
| "matchPieces (Lit l # ps) s =
     (prefix (runes l) s \<and> matchPieces ps (drop (length (runes l)) s))"
| "matchPieces (Opt l # ps) s =
     ((prefix (runes l) s \<and> matchPieces ps (drop (length (runes l)) s)) \<or> matchPieces ps s)"

text \<open>\<^verbatim>\<open>MatchString\<close> of an anchored pattern: some match starts at the first rune.\<close>

fun MatchString :: "Regexp \<Rightarrow> string \<Rightarrow> bool" where
  "MatchString (Regexp pattern) s = matchPieces pattern (runes s)"

definition whitelistedPatterns :: "piece list list" where
  "whitelistedPatterns =
     [[Lit ''https://blockstream.info/'', Opt ''testnet/'', Lit ''tx/''],
      [Lit ''http://explorer.litecointools.com/tx/''],
      [Lit ''https://insight.litecore.io/tx/''],
      [Lit ''https://etherscan.io/tx/''],
      [Lit ''https://rinkeby.etherscan.io/tx/''],
      [Lit ''https://ropsten.etherscan.io/tx/'']]"

text \<open>The two loops of the handler over the variable \<^verbatim>\<open>blocked\<close>. The second compiles
  each pattern when it comes to it, so it ends with the panic of \<^verbatim>\<open>MustCompile\<close> or
  with the value of \<^verbatim>\<open>blocked\<close>.\<close>

fun urlLoop :: "string \<Rightarrow> string list \<Rightarrow> bool \<Rightarrow> bool" where
  "urlLoop url [] blocked = blocked"
| "urlLoop url (whitelistedURL # rest) blocked =
     (if url = whitelistedURL then False else urlLoop url rest blocked)"

fun patternLoop :: "string \<Rightarrow> piece list list \<Rightarrow> bool \<Rightarrow> string + bool" where
  "patternLoop url [] blocked = Inr blocked"
| "patternLoop url (pattern # rest) blocked =
     (case MustCompile pattern of
        Inl panic \<Rightarrow> Inl panic
      | Inr re \<Rightarrow> if MatchString re url then Inr False else patternLoop url rest blocked)"

text \<open>
  The handler is given the outcome of decoding the body (an error or the URL), the outcome
  of \<^verbatim>\<open>DownloadsDir\<close>, the system opener (which returns an error or \<open>None\<close>) and the
  URLs handed to the opener so far. It returns its result, whose value is always
  \<^verbatim>\<open>nil\<close>, and the URLs handed to the opener.
\<close>

definition postOpenHandler ::
  "string + string \<Rightarrow> string + string \<Rightarrow> (string \<Rightarrow> string option) \<Rightarrow> string list
     \<Rightarrow> goval result \<times> string list" where
  "postOpenHandler body DownloadsDir Open opened =
     (case body of
        Inl err \<Rightarrow> (Return GoNil (Some err), opened)
      | Inr url \<Rightarrow>
          (let blocked = urlLoop url whitelistedURLs True
           in case DownloadsDir of
                Inl err \<Rightarrow> (Return GoNil (Some err), opened)
              | Inr downloadDir \<Rightarrow>
                  (let patterns = whitelistedPatterns @ [[Lit downloadDir]]
                   in case patternLoop url patterns blocked of
                        Inl panic \<Rightarrow> (Panic panic, opened)
                      | Inr blocked' \<Rightarrow>
                          if blocked'
                          then (Return GoNil (Some (''Blocked /open with url: '' @ url)), opened)
                          else (Return GoNil (Open url), opened @ [url]))))"

text \<open>
  The allow-list in the words of the specification. A URL matches one of the allow-listed
  patterns when it starts as the pattern demands. A URL lies inside the downloads
  directory when it is the path of the directory, a separator and a path below it that
  never steps up with \<^verbatim>\<open>..\<close>. A URL begins with the path of the downloads directory
  when the runes of the path are the first runes of the URL.
\<close>

definition matchesPattern :: "string \<Rightarrow> bool" where
  "matchesPattern url \<longleftrightarrow>
     prefix ''https://blockstream.info/tx/'' url
     \<or> prefix ''https://blockstream.info/testnet/tx/'' url
     \<or> prefix ''http://explorer.litecointools.com/tx/'' url
     \<or> prefix ''https://insight.litecore.io/tx/'' url
     \<or> prefix ''https://etherscan.io/tx/'' url
     \<or> prefix ''https://rinkeby.etherscan.io/tx/'' url
     \<or> prefix ''https://ropsten.etherscan.io/tx/'' url"

fun components :: "string \<Rightarrow> string list" where
  "components [] = [[]]"
| "components (c # cs) =
     (if c = CHR ''/'' then [] # components cs
      else (case components cs of
              x # xs \<Rightarrow> (c # x) # xs
            | [] \<Rightarrow> [[c]]))"

definition insideDir :: "string \<Rightarrow> string \<Rightarrow> bool" where
  "insideDir dir url \<longleftrightarrow>
     prefix (dir @ ''/'') url \<and> ''..'' \<notin> set (components (drop (length dir + 1) url))"

definition beginsWith :: "string \<Rightarrow> string \<Rightarrow> bool" where
  "beginsWith dir url \<longleftrightarrow> prefix (runes dir) (runes url)"

text \<open>Matching byte by byte, which is what matching rune by rune comes to when the pattern
  is plain ASCII.\<close>

fun matchBytes :: "piece list \<Rightarrow> string \<Rightarrow> bool" where
  "matchBytes [] s = True"
| "matchBytes (Lit l # ps) s = (prefix l s \<and> matchBytes ps (drop (length l) s))"
| "matchBytes (Opt l # ps) s =
     ((prefix l s \<and> matchBytes ps (drop (length l) s)) \<or> matchBytes ps s)"

definition ascii :: "string \<Rightarrow> bool" where
  "ascii s \<longleftrightarrow> (\<forall>c \<in> set s. between 0x00 c 0x7F)"

subsection \<open>The handler of /api/coins/convertFromFiat\<close>

text \<open>
  A \<^verbatim>\<open>float64\<close> is a zero with its sign (\<open>Zero True\<close> is \<open>-0\<close>) or a value that
  compares unequal to \<open>0.0\<close>: a non-zero number, an infinity or a NaN. Parsing, division and
  the formatting of such values belong to the library and are parameters.
\<close>

datatype 'f float64 = Zero bool | NonZero 'f

fun neqZero :: "'f float64 \<Rightarrow> bool" where
  "neqZero (Zero _) = False"
| "neqZero (NonZero _) = True"

record 'f FloatOps =
  ParseFloat :: "string \<Rightarrow> 'f float64 option"
  fdiv :: "'f float64 \<Rightarrow> 'f float64 \<Rightarrow> 'f float64"
  formatNonZero :: "'f \<Rightarrow> nat \<Rightarrow> string"

text \<open>\<^verbatim>\<open>strconv.FormatFloat(x, 'f', prec, 64)\<close>: a zero prints as \<open>0\<close>, a point and
  \<open>prec\<close> zeros, after its sign.\<close>

fun FormatFloat :: "'f FloatOps \<Rightarrow> 'f float64 \<Rightarrow> nat \<Rightarrow> string" where
  "FormatFloat ops (Zero neg) prec =
     (if neg then ''-'' else []) @ ''0'' @ (if prec = 0 then [] else ''.'' @ replicate prec (CHR ''0''))"
| "FormatFloat ops (NonZero x) prec = formatNonZero ops x prec"

text \<open>Indexing a map of maps: a missing key gives the zero value, at either level.\<close>

definition rateOf :: "(string \<rightharpoonup> (string \<rightharpoonup> 'f float64)) \<Rightarrow> string \<Rightarrow> string \<Rightarrow> 'f float64" where
  "rateOf rates a b =
     (case rates a of
        None \<Rightarrow> Zero False
      | Some m \<Rightarrow> (case m b of None \<Rightarrow> Zero False | Some x \<Rightarrow> x))"

definition getConvertFromFiatHandler ::
  "'f FloatOps \<Rightarrow> (string \<rightharpoonup> (string \<rightharpoonup> 'f float64)) \<Rightarrow> goval apiFunc" where
  "getConvertFromFiatHandler ops Rates r =
     (let from = Get (urlQuery r) ''from'';
          to = Get (urlQuery r) ''to'';
          amount = Get (urlQuery r) ''amount''
      in case ParseFloat ops amount of
           None \<Rightarrow> Return (GoMap [(''success'', GoBool False), (''errMsg'', GoString ''invalid amount'')]) None
         | Some amountAsFloat \<Rightarrow>
             (let rate = rateOf Rates to from;
                  result = (if neqZero rate then fdiv ops amountAsFloat rate else Zero False)
              in Return (GoMap [(''success'', GoBool True),
                                (''amount'', GoString (FormatFloat ops result 8))]) None))"

subsection \<open>The registries of sub-handlers\<close>

text \<open>
  The state that the closures of \<^verbatim>\<open>NewHandlers\<close> share: the two maps, the subrouters
  mounted on the API router (by path prefix, in order), and the sub-handler objects
  constructed so far, each with the prefix of the subrouter it was given. A reference to a
  sub-handler is its position in \<open>objects\<close>, so a newly constructed object differs from
  every older one. \<open>calls\<close> records the \<^verbatim>\<open>Init\<close> and \<^verbatim>\<open>Uninit\<close> calls made on
  sub-handlers. Each closure holds \<^verbatim>\<open>handlersMapLock\<close> from its first statement to its
  return, so it is one step on this state.
\<close>

datatype kind = AccountHandlers | DeviceHandlers

datatype lifecall = InitCall nat | UninitCall nat

record Registry =
  accountHandlersMap :: "string \<rightharpoonup> nat"
  deviceHandlersMap :: "string \<rightharpoonup> nat"
  subrouters :: "string list"
  objects :: "(kind \<times> string) list"
  calls :: "lifecall list"

definition newRegistry :: Registry where
  "newRegistry = \<lparr>accountHandlersMap = Map.empty, deviceHandlersMap = Map.empty,
     subrouters = [], objects = [], calls = []\<rparr>"

definition getAccountHandlers :: "string \<Rightarrow> Registry \<Rightarrow> nat \<times> Registry" where
  "getAccountHandlers accountCode st =
     (case accountHandlersMap st accountCode of
        None \<Rightarrow>
          (let pathPrefix = ''/api/account/'' @ accountCode;
               accHandlers = length (objects st)
           in (accHandlers,
               st\<lparr>subrouters := subrouters st @ [pathPrefix],
                  objects := objects st @ [(AccountHandlers, pathPrefix)],
                  accountHandlersMap := (accountHandlersMap st)(accountCode \<mapsto> accHandlers)\<rparr>))
      | Some accHandlers \<Rightarrow> (accHandlers, st))"

definition getDeviceHandlers :: "string \<Rightarrow> Registry \<Rightarrow> nat \<times> Registry" where
  "getDeviceHandlers deviceID st =
     (case deviceHandlersMap st deviceID of
        None \<Rightarrow>
          (let pathPrefix = ''/api/devices/'' @ deviceID;
               devHandlers = length (objects st)
           in (devHandlers,
               st\<lparr>subrouters := subrouters st @ [pathPrefix],
                  objects := objects st @ [(DeviceHandlers, pathPrefix)],
                  deviceHandlersMap := (deviceHandlersMap st)(deviceID \<mapsto> devHandlers)\<rparr>))
      | Some devHandlers \<Rightarrow> (devHandlers, st))"

text \<open>The four callbacks that \<^verbatim>\<open>NewHandlers\<close> registers with the backend. A device is
  a \<^verbatim>\<open>*bitbox.Device\<close> or of another type; both have an identifier.\<close>

datatype device = BitboxDevice string | OtherDevice string

fun Identifier :: "device \<Rightarrow> string" where
  "Identifier (BitboxDevice deviceID) = deviceID"
| "Identifier (OtherDevice deviceID) = deviceID"

definition onAccountInit :: "string \<Rightarrow> Registry \<Rightarrow> Registry" where
  "onAccountInit code st =
     (case getAccountHandlers code st of (h, st') \<Rightarrow> st'\<lparr>calls := calls st' @ [InitCall h]\<rparr>)"

definition onAccountUninit :: "string \<Rightarrow> Registry \<Rightarrow> Registry" where
  "onAccountUninit code st =
     (case getAccountHandlers code st of (h, st') \<Rightarrow> st'\<lparr>calls := calls st' @ [UninitCall h]\<rparr>)"

fun onDeviceInit :: "device \<Rightarrow> Registry \<Rightarrow> Registry" where
  "onDeviceInit (BitboxDevice deviceID) st =
     (case getDeviceHandlers (Identifier (BitboxDevice deviceID)) st of
        (h, st') \<Rightarrow> st'\<lparr>calls := calls st' @ [InitCall h]\<rparr>)"
| "onDeviceInit (OtherDevice deviceID) st = st"

definition onDeviceUninit :: "string \<Rightarrow> Registry \<Rightarrow> Registry" where
  "onDeviceUninit deviceID st =
     (case getDeviceHandlers deviceID st of (h, st') \<Rightarrow> st'\<lparr>calls := calls st' @ [UninitCall h]\<rparr>)"

text \<open>A sequence of calls of the two lookup closures, with the references they return.\<close>

datatype lookup = GetAccount string | GetDevice string

fun getOrCreate :: "lookup \<Rightarrow> Registry \<Rightarrow> nat \<times> Registry" where
  "getOrCreate (GetAccount accountCode) st = getAccountHandlers accountCode st"
| "getOrCreate (GetDevice deviceID) st = getDeviceHandlers deviceID st"

fun runLookups :: "lookup list \<Rightarrow> Registry \<Rightarrow> nat list \<times> Registry" where
  "runLookups [] st = ([], st)"
| "runLookups (c # cs) st =
     (case getOrCreate c st of
        (h, st') \<Rightarrow> (case runLookups cs st' of (hs, st'') \<Rightarrow> (h # hs, st'')))"

text \<open>The entry of a registry that a lookup reads, and the object that it constructs on
  a miss.\<close>

fun entry :: "Registry \<Rightarrow> lookup \<Rightarrow> nat option" where
  "entry st (GetAccount accountCode) = accountHandlersMap st accountCode"
| "entry st (GetDevice deviceID) = deviceHandlersMap st deviceID"


fun objectOf :: "lookup \<Rightarrow> kind \<times> string" where
  "objectOf (GetAccount accountCode) = (AccountHandlers, ''/api/account/'' @ accountCode)"
| "objectOf (GetDevice deviceID) = (DeviceHandlers, ''/api/devices/'' @ deviceID)"

text \<open>The events of the backend that reach the four callbacks, the lookup that the callback
  of an event makes, if any, and the handling of a sequence of events.\<close>

datatype event = AccountInit string | AccountUninit string | DeviceInit device | DeviceUninit string

fun handleEvent :: "event \<Rightarrow> Registry \<Rightarrow> Registry" where
  "handleEvent (AccountInit code) st = onAccountInit code st"
| "handleEvent (AccountUninit code) st = onAccountUninit code st"
| "handleEvent (DeviceInit d) st = onDeviceInit d st"
| "handleEvent (DeviceUninit deviceID) st = onDeviceUninit deviceID st"

fun lookupOf :: "event \<Rightarrow> lookup option" where
  "lookupOf (AccountInit code) = Some (GetAccount code)"
| "lookupOf (AccountUninit code) = Some (GetAccount code)"
| "lookupOf (DeviceInit (BitboxDevice deviceID)) = Some (GetDevice deviceID)"
| "lookupOf (DeviceInit (OtherDevice deviceID)) = None"
| "lookupOf (DeviceUninit deviceID) = Some (GetDevice deviceID)"

fun runEvents :: "event list \<Rightarrow> Registry \<Rightarrow> Registry" where
  "runEvents [] st = st"
| "runEvents (e # es) st = runEvents es (handleEvent e st)"

subsection \<open>The server of the Qt frontend\<close>

text \<open>
  \<^verbatim>\<open>log.Fatal\<close> and \<^verbatim>\<open>log.Fatalf\<close> print the message and end the process with
  \<^verbatim>\<open>os.Exit(1)\<close>: the statement after them is never reached. A step of the start-up
  either ends the process with a message or goes on with a value.
\<close>

datatype 'a outcome = Fatal string | Ok 'a

text \<open>
  A wall-clock time is a day of the calendar, counted from some first day, and the
  nanoseconds since that day began. \<open>AddDate t days\<close> is \<^verbatim>\<open>t.AddDate(0, 0, days)\<close>, the
  only way the source calls it: the same time of day, \<open>days\<close> calendar days later.
\<close>

record Time =
  civilDay :: int
  nsOfDay :: nat

definition AddDate :: "Time \<Rightarrow> int \<Rightarrow> Time" where
  "AddDate t days = t\<lparr>civilDay := civilDay t + days\<rparr>"

definition Before :: "Time \<Rightarrow> Time \<Rightarrow> bool" where
  "Before t u \<longleftrightarrow> civilDay t < civilDay u \<or> (civilDay t = civilDay u \<and> nsOfDay t < nsOfDay u)"

record Name =
  Country :: "string list"
  Organization :: "string list"
  OrganizationalUnit :: "string list"

datatype keyUsage = KeyUsageKeyEncipherment | KeyUsageDigitalSignature | KeyUsageCertSign

datatype extKeyUsage = ExtKeyUsageServerAuth

datatype ip = IPv4 nat nat nat nat | ParseIP string

text \<open>The fields of \<^verbatim>\<open>x509.Certificate\<close> that the template sets.\<close>

record Certificate =
  SerialNumber :: int
  Subject :: Name
  NotBefore :: Time
  NotAfter :: Time
  KeyUsage :: "keyUsage set"
  ExtKeyUsage :: "extKeyUsage list"
  BasicConstraintsValid :: bool
  IPAddresses :: "ip list"
  DNSNames :: "string list"
  IsCA :: bool

text \<open>
  \<^verbatim>\<open>x509.CreateCertificate(rand, template, parent, pub, priv)\<close> fails with an error or
  returns the encoding of a certificate with the fields of the template, the subject of
  the parent as issuer, the public key \<open>pub\<close>, signed with \<open>priv\<close>. The encoded
  certificate is given by what it encodes.
\<close>

datatype 'k publicKey = Public 'k

record 'k Signed =
  tbs :: Certificate
  Issuer :: Name
  PublicKey :: "'k publicKey"
  signedWith :: 'k

definition CreateCertificate ::
  "string option \<Rightarrow> Certificate \<Rightarrow> Certificate \<Rightarrow> 'k publicKey \<Rightarrow> 'k \<Rightarrow> string + 'k Signed" where
  "CreateCertificate failure template parent pub priv =
     (case failure of
        Some err \<Rightarrow> Inl err
      | None \<Rightarrow> Inr \<lparr>tbs = template, Issuer = Subject parent, PublicKey = pub, signedWith = priv\<rparr>)"

definition generateRSAPrivateKey :: "string + 'k \<Rightarrow> 'k outcome" where
  "generateRSAPrivateKey GenerateKey =
     (case GenerateKey of
        Inl err \<Rightarrow> Fatal (''Failed to create private key: '' @ err)
      | Inr privateKey \<Rightarrow> Ok privateKey)"

text \<open>\<open>now\<close> is what \<^verbatim>\<open>time.Now()\<close> returns, \<open>failure\<close> the error of
  \<^verbatim>\<open>x509.CreateCertificate\<close>, if any.\<close>

definition createSelfSignedCertificate :: "Time \<Rightarrow> string option \<Rightarrow> 'k \<Rightarrow> 'k Signed outcome" where
  "createSelfSignedCertificate now failure privateKey =
     (let serialNumber = 0;
          notBefore = now;
          notAfter = AddDate notBefore 1;
          template = \<lparr>SerialNumber = serialNumber,
                      Subject = \<lparr>Country = [''CH''], Organization = [''Shift Cryptosecurity''],
                                 OrganizationalUnit = [''godbb'']\<rparr>,
                      NotBefore = notBefore,
                      NotAfter = notAfter,
                      KeyUsage = {KeyUsageKeyEncipherment, KeyUsageDigitalSignature, KeyUsageCertSign},
                      ExtKeyUsage = [ExtKeyUsageServerAuth],
                      BasicConstraintsValid = True,
                      IPAddresses = [IPv4 127 0 0 1, ParseIP ''::1''],
                      DNSNames = [''localhost''],
                      IsCA = True\<rparr>
      in case CreateCertificate failure template template (Public privateKey) privateKey of
           Inl err \<Rightarrow> Fatal (''Failed to create certificate: '' @ err)
         | Inr derBytes \<Rightarrow> Ok derBytes)"

text \<open>
  A PEM block, and the file system as \<^verbatim>\<open>saveAsPEM\<close> meets it: the directory of a
  path, and the error, if any, of each of the four operations.
\<close>

record 'b Block =
  Type :: string
  Bytes :: 'b

definition derToPem :: "string \<Rightarrow> 'b \<Rightarrow> 'b Block" where
  "derToPem pemType pemBytes = \<lparr>Type = pemType, Bytes = pemBytes\<rparr>"

record 'b FileSystem =
  Dir :: "string \<Rightarrow> string"
  MkdirAll :: "string \<Rightarrow> string option"
  Create :: "string \<Rightarrow> string option"
  Encode :: "string \<Rightarrow> 'b Block \<Rightarrow> string option"
  Close :: "string \<Rightarrow> string option"

definition saveAsPEM :: "'b FileSystem \<Rightarrow> string \<Rightarrow> 'b Block \<Rightarrow> string option outcome" where
  "saveAsPEM fs name pemBytes =
     (let certificateDir = Dir fs name
      in case MkdirAll fs certificateDir of
           Some err \<Rightarrow> Fatal (''failed to create directory '' @ certificateDir @ '': '' @ err)
         | None \<Rightarrow>
        (case Create fs name of
           Some err \<Rightarrow> Fatal (''failed to open '' @ name @ '' for writing: '' @ err)
         | None \<Rightarrow>
        (case Encode fs name pemBytes of
           Some err \<Rightarrow> Fatal (''failed to write PEM encoded file '' @ name @ '': '' @ err)
         | None \<Rightarrow>
        (case Close fs name of
           Some err \<Rightarrow> Fatal (''failed to close PEM file '' @ name @ '': '' @ err)
         | None \<Rightarrow> Ok None))))"

definition tlsServerCertificate :: string where
  "tlsServerCertificate = ''config/server.pem''"

text \<open>
  What \<^verbatim>\<open>serve\<close> finds when it runs, and the server it starts: the address and the
  certificate and key that the listener presents. The listener runs in its own goroutine
  after \<^verbatim>\<open>serve\<close> has returned the port. The router of the handlers, which the server
  is given as well, is left out here.
\<close>

record 'k Environment =
  FreePort :: "string + int"
  GenerateKey :: "string + 'k"
  Now :: Time
  createCertificateError :: "string option"
  fileSystem :: "'k Signed FileSystem"

record 'k Server =
  Addr :: "string \<times> int"
  NextProtos :: "string list"
  Certificates :: "('k Signed \<times> 'k) list"

definition serve :: "'k Environment \<Rightarrow> (int \<times> 'k Server) outcome" where
  "serve env =
     (case FreePort env of
        Inl err \<Rightarrow> Fatal err
      | Inr thePort \<Rightarrow>
     (case generateRSAPrivateKey (GenerateKey env) of
        Fatal msg \<Rightarrow> Fatal msg
      | Ok privateKey \<Rightarrow>
     (case createSelfSignedCertificate (Now env) (createCertificateError env) privateKey of
        Fatal msg \<Rightarrow> Fatal msg
      | Ok certificate \<Rightarrow>
     (let certificatePEM = derToPem ''CERTIFICATE'' certificate
      in case saveAsPEM (fileSystem env) tlsServerCertificate certificatePEM of
        Fatal msg \<Rightarrow> Fatal msg
      | Ok _ \<Rightarrow>
          Ok (thePort, \<lparr>Addr = (''localhost'', thePort), NextProtos = [''http/1.1''],
                     Certificates = [(certificate, privateKey)]\<rparr>)))))"

text \<open>
  The invariant of the registry: a key has an entry exactly when its object and its
  subrouter have been constructed, and they have been constructed once.
\<close>

definition registryInv :: "Registry \<Rightarrow> bool" where
  "registryInv st \<longleftrightarrow> (\<forall>c. count_list (objects st) (objectOf c) = (if entry st c = None then 0 else 1)
     \<and> count_list (subrouters st) (snd (objectOf c)) = (if entry st c = None then 0 else 1))"

subsection \<open>Concrete inputs\<close>

text \<open>The values at which the properties below are evaluated: a request without a body or
  query, an encoder that accepts every value, an opener that succeeds, a business function
  with the three outcomes, an environment in which the directory of the certificate cannot
  be created and one in which the file is written, the certificate and the server of the
  latter, and float operations on a stand-in for the non-zero floats.\<close>

definition request :: "string \<Rightarrow> string \<Rightarrow> header \<Rightarrow> Request" where
  "request m path h = \<lparr>reqMethod = m, urlPath = path, reqHeader = h, urlQuery = []\<rparr>"

definition noJSONError :: "'v \<Rightarrow> string option" where
  "noJSONError v = None"

definition openSucceeds :: "string \<Rightarrow> string option" where
  "openSucceeds url = None"

definition exampleFunc :: "nat apiFunc" where
  "exampleFunc r =
     (if urlPath r = ''/api/value'' then Return 7 None
      else if urlPath r = ''/api/error'' then Return 0 (Some ''not found'')
      else Panic ''index out of range'')"

definition failingMkdir :: "nat Environment" where
  "failingMkdir =
     \<lparr>FreePort = Inr 8082, GenerateKey = Inr 7, Now = \<lparr>civilDay = 20000, nsOfDay = 5\<rparr>,
      createCertificateError = None,
      fileSystem = \<lparr>Dir = (\<lambda>name. ''config''), MkdirAll = (\<lambda>dir. Some ''permission denied''),
                    Create = (\<lambda>name. None), Encode = (\<lambda>name block. None),
                    Close = (\<lambda>name. None)\<rparr>\<rparr>"

definition workingFiles :: "nat Environment" where
  "workingFiles =
     \<lparr>FreePort = Inr 8082, GenerateKey = Inr 7, Now = \<lparr>civilDay = 20000, nsOfDay = 5\<rparr>,
      createCertificateError = None,
      fileSystem = \<lparr>Dir = (\<lambda>name. ''config''), MkdirAll = (\<lambda>dir. None),
                    Create = (\<lambda>name. None), Encode = (\<lambda>name block. None),
                    Close = (\<lambda>name. None)\<rparr>\<rparr>"

definition exampleCertificate :: "nat Signed" where
  "exampleCertificate =
     \<lparr>tbs = \<lparr>SerialNumber = 0,
              Subject = \<lparr>Country = [''CH''], Organization = [''Shift Cryptosecurity''],
                         OrganizationalUnit = [''godbb'']\<rparr>,
              NotBefore = \<lparr>civilDay = 20000, nsOfDay = 5\<rparr>,
              NotAfter = \<lparr>civilDay = 20001, nsOfDay = 5\<rparr>,
              KeyUsage = {KeyUsageKeyEncipherment, KeyUsageDigitalSignature, KeyUsageCertSign},
              ExtKeyUsage = [ExtKeyUsageServerAuth],
              BasicConstraintsValid = True,
              IPAddresses = [IPv4 127 0 0 1, ParseIP ''::1''],
              DNSNames = [''localhost''],
              IsCA = True\<rparr>,
      Issuer = \<lparr>Country = [''CH''], Organization = [''Shift Cryptosecurity''],
                OrganizationalUnit = [''godbb'']\<rparr>,
      PublicKey = Public 7, signedWith = 7\<rparr>"

definition exampleServer :: "nat Server" where
  "exampleServer =
     \<lparr>Addr = (''localhost'', 8082), NextProtos = [''http/1.1''],
      Certificates = [(exampleCertificate, 7)]\<rparr>"

definition exampleOps :: "nat FloatOps" where
  "exampleOps =
     \<lparr>ParseFloat = (\<lambda>s. if s = ''6'' then Some (NonZero 6) else if s = ''0'' then Some (Zero False) else None),
      fdiv = (\<lambda>a b. case (a, b) of (NonZero x, NonZero y) \<Rightarrow> NonZero (x div y) | _ \<Rightarrow> Zero False),
      formatNonZero = (\<lambda>x prec. if x = 3 then ''3.00000000'' else ''?'')\<rparr>"

definition convertRequest :: Request where
  "convertRequest =
     \<lparr>reqMethod = ''GET'', urlPath = ''/api/coins/convertFromFiat'', reqHeader = [],
      urlQuery = [(''from'', ''USD''), (''to'', ''BTC''), (''amount'', ''6'')]\<rparr>"

section \<open>Properties\<close>

subsection \<open>Connection data and the token gate\<close>

text \<open>
  C2, evaluated at port \<open>-1\<close> with a non-empty token: the connection data is in development
  mode by \<open>isDev\<close> and by the comment of \<^verbatim>\<open>NewConnectionData\<close>, but its \<open>devMode\<close> field,
  which is set from the length of the token alone, is false.
\<close>

theorem NewConnectionData_devMode_port:
  "devMode (NewConnectionData (-1) ''abc'') = False
   \<and> isDev (NewConnectionData (-1) ''abc'') = True"
  by (simp add: NewConnectionData_def isDev_def)

lemma isAPITokenValid_verdict:
  "snd (isAPITokenValid w r apiData) \<longleftrightarrow>
     devMode apiData \<or> Get (reqHeader r) ''Authorization'' = ''Basic '' @ token apiData"
  by (auto simp: isAPITokenValid_def)

lemma wStatus_http_Error: "wStatus w = None \<Longrightarrow> wStatus (http_Error w msg code) = Some code"
  by (simp add: http_Error_def WriteHeader_def Write_def Let_def)

lemma wStatus_Write: "wStatus w = None \<Longrightarrow> wStatus (Write w x) = Some StatusOK"
  by (simp add: Write_def WriteHeader_def Let_def)

lemma wBody_Write: "wBody (Write w x) = wBody w @ [x]"
  by (simp add: Write_def WriteHeader_def Let_def split: option.splits)

lemma wHeader_Write: "wHeader (Write w x) = wHeader w"
  by (simp add: Write_def WriteHeader_def Let_def split: option.splits)

lemma staticRoutes_mounts:
  "rt \<in> set (staticRoutes hs) \<Longrightarrow> routePath rt \<noteq> ''/api/events'' \<Longrightarrow>
     \<exists>f. routeMount rt = ViaAPIRouter f"
  by (auto simp: staticRoutes_def api_def)

text \<open>
  C1 as stated fails on the route \<^verbatim>\<open>/api/events\<close>: with port 8080 and the token
  \<open>secret\<close> the connection data is not in development mode, the request carries no
  \<^verbatim>\<open>Authorization\<close> header, and the router still runs the events handler, which answers
  with the default status.
\<close>

theorem events_route_not_gated:
  "\<not> isDev (NewConnectionData 8080 ''secret'')
   \<and> Get (reqHeader (request ''GET'' ''/api/events'' [])) ''Authorization'' \<noteq> ''Basic '' @ ''secret''
   \<and> serveHTTP noJSONError (NewConnectionData 8080 ''secret'') (staticRoutes stubHandlers)
        newResponseWriter (request ''GET'' ''/api/events'' [])
      = Some (None, \<lparr>wHeader = [], wStatus = Some 200, wBody = [Text ''events'']\<rparr>)"
  by (simp add: isDev_def NewConnectionData_def Get_def request_def staticRoutes_def api_def
      routeMatches_def stubHandlers_def newResponseWriter_def Write_def WriteHeader_def StatusOK_def)

text \<open>
  C1, amended: every static route other than \<^verbatim>\<open>/api/events\<close> is mounted through the API
  router, and for a function mounted through the API router, outside development mode, the
  function is run exactly when the \<^verbatim>\<open>Authorization\<close> header equals \<open>Basic\<close>, a space
  and the token. Then the request goes to the dispatcher; without the header the answer
  is the missing-token error, with another header the incorrect-token error, both with the
  unauthorized status 401, and the function is not run.
\<close>

theorem api_routes_gated:
  assumes "\<not> isDev (NewConnectionData p t)"
  shows "(\<forall>rt \<in> set (staticRoutes hs). routePath rt \<noteq> ''/api/events'' \<longrightarrow>
            (\<exists>f. routeMount rt = ViaAPIRouter f))
    \<and> (admitted (NewConnectionData p t) (ViaAPIRouter f) r
          \<longleftrightarrow> Get (reqHeader r) ''Authorization'' = ''Basic '' @ t)
    \<and> (Get (reqHeader r) ''Authorization'' = ''Basic '' @ t \<longrightarrow>
          mounted jsonErr (NewConnectionData p t) (ViaAPIRouter f) w r
            = apiMiddleware jsonErr (isDev (NewConnectionData p t)) f w r)
    \<and> (Get (reqHeader r) ''Authorization'' = [] \<longrightarrow>
          mounted jsonErr (NewConnectionData p t) (ViaAPIRouter f) w r
            = (None, http_Error w (''missing token '' @ urlPath r) StatusUnauthorized))
    \<and> (Get (reqHeader r) ''Authorization'' \<noteq> []
        \<and> Get (reqHeader r) ''Authorization'' \<noteq> ''Basic '' @ t \<longrightarrow>
          mounted jsonErr (NewConnectionData p t) (ViaAPIRouter f) w r
            = (None, http_Error w ''incorrect token'' StatusUnauthorized))
    \<and> (wStatus w = None \<longrightarrow> wStatus (http_Error w msg StatusUnauthorized) = Some 401)"
proof -
  from assms have dev: "\<not> devMode (NewConnectionData p t)"
    by (simp add: isDev_def NewConnectionData_def)
  have tok: "token (NewConnectionData p t) = t"
    by (simp add: NewConnectionData_def)
  have 1: "\<forall>rt \<in> set (staticRoutes hs). routePath rt \<noteq> ''/api/events'' \<longrightarrow>
             (\<exists>f. routeMount rt = ViaAPIRouter f)"
    using staticRoutes_mounts by blast
  have 2: "admitted (NewConnectionData p t) (ViaAPIRouter f) r
          \<longleftrightarrow> Get (reqHeader r) ''Authorization'' = ''Basic '' @ t"
    using dev tok by (simp add: isAPITokenValid_verdict)
  have 3: "Get (reqHeader r) ''Authorization'' = ''Basic '' @ t \<longrightarrow>
          mounted jsonErr (NewConnectionData p t) (ViaAPIRouter f) w r
            = apiMiddleware jsonErr (isDev (NewConnectionData p t)) f w r"
    using dev tok by (simp add: ensureAPITokenValid_def isAPITokenValid_def)
  have 4: "Get (reqHeader r) ''Authorization'' = [] \<longrightarrow>
          mounted jsonErr (NewConnectionData p t) (ViaAPIRouter f) w r
            = (None, http_Error w (''missing token '' @ urlPath r) StatusUnauthorized)"
    using dev tok by (simp add: ensureAPITokenValid_def isAPITokenValid_def)
  have 5: "Get (reqHeader r) ''Authorization'' \<noteq> []
        \<and> Get (reqHeader r) ''Authorization'' \<noteq> ''Basic '' @ t \<longrightarrow>
          mounted jsonErr (NewConnectionData p t) (ViaAPIRouter f) w r
            = (None, http_Error w ''incorrect token'' StatusUnauthorized)"
    using dev tok by (simp add: ensureAPITokenValid_def isAPITokenValid_def)
  have 6: "wStatus w = None \<longrightarrow> wStatus (http_Error w msg StatusUnauthorized) = Some 401"
    by (simp add: wStatus_http_Error StatusUnauthorized_def)
  from 1 2 3 4 5 6 show ?thesis by blast
qed

theorem api_routes_gated_witness:
  "\<not> isDev (NewConnectionData 8080 ''secret'')
   \<and> api ''/version'' ''GET'' (getVersionHandler stubHandlers) \<in> set (staticRoutes stubHandlers)
   \<and> admitted (NewConnectionData 8080 ''secret'') (ViaAPIRouter (getVersionHandler stubHandlers))
        (request ''GET'' ''/api/version'' [(''Authorization'', ''Basic secret'')])
   \<and> mounted noJSONError (NewConnectionData 8080 ''secret'')
        (ViaAPIRouter (getVersionHandler stubHandlers))
        newResponseWriter (request ''GET'' ''/api/version'' [(''Authorization'', ''Basic secret'')])
      = (None, \<lparr>wHeader = [(''Content-Type'', ''text/json'')], wStatus = Some 200,
                wBody = [Doc (Value ())]\<rparr>)
   \<and> \<not> admitted (NewConnectionData 8080 ''secret'') (ViaAPIRouter (getVersionHandler stubHandlers))
        (request ''GET'' ''/api/version'' [])
   \<and> wStatus (snd (mounted noJSONError (NewConnectionData 8080 ''secret'')
        (ViaAPIRouter (getVersionHandler stubHandlers)) newResponseWriter
        (request ''GET'' ''/api/version'' [])))
      = Some 401
   \<and> \<not> admitted (NewConnectionData 8080 ''secret'') (ViaAPIRouter (getVersionHandler stubHandlers))
        (request ''GET'' ''/api/version'' [(''Authorization'', ''Basic guess'')])
   \<and> wStatus (snd (mounted noJSONError (NewConnectionData 8080 ''secret'')
        (ViaAPIRouter (getVersionHandler stubHandlers)) newResponseWriter
        (request ''GET'' ''/api/version'' [(''Authorization'', ''Basic guess'')])))
      = Some 401"
  using api_routes_gated [of 8080 "''secret''" stubHandlers "getVersionHandler stubHandlers"
      "request ''GET'' ''/api/version'' [(''Authorization'', ''Basic secret'')]" noJSONError
      newResponseWriter]
    api_routes_gated [of 8080 "''secret''" stubHandlers "getVersionHandler stubHandlers"
      "request ''GET'' ''/api/version'' []" noJSONError newResponseWriter]
    api_routes_gated [of 8080 "''secret''" stubHandlers "getVersionHandler stubHandlers"
      "request ''GET'' ''/api/version'' [(''Authorization'', ''Basic guess'')]" noJSONError
      newResponseWriter]
  by (simp add: isDev_def NewConnectionData_def request_def Get_def staticRoutes_def api_def
      stubHandlers_def newResponseWriter_def apiMiddleware_def apiMiddleware_body_def writeJSON_def
      noJSONError_def Write_def WriteHeader_def StatusOK_def Set_def Let_def)

text \<open>
  C4, evaluated at port \<open>-1\<close> with the token \<open>abc\<close>: the connection data is in
  development mode by \<open>isDev\<close>, and a request for \<^verbatim>\<open>/api/version\<close> without an
  \<^verbatim>\<open>Authorization\<close> header is answered by the gate with status 401; the business function
  is not run and no cross-origin header is set.
\<close>

theorem devMode_port_request_denied:
  "isDev (NewConnectionData (-1) ''abc'')
   \<and> serveHTTP noJSONError (NewConnectionData (-1) ''abc'') (staticRoutes stubHandlers)
        newResponseWriter (request ''GET'' ''/api/version'' [])
      = Some (None, \<lparr>wHeader = [(''X-Content-Type-Options'', ''nosniff''),
                                (''Content-Type'', ''text/plain; charset=utf-8'')],
                     wStatus = Some 401,
                     wBody = [Text (''missing token /api/version'' @ [CHR 0x0A])]\<rparr>)"
  by (simp add: isDev_def NewConnectionData_def Get_def Set_def request_def staticRoutes_def api_def
      routeMatches_def stubHandlers_def newResponseWriter_def Write_def WriteHeader_def StatusOK_def
      ensureAPITokenValid_def isAPITokenValid_def http_Error_def StatusUnauthorized_def Let_def)

text \<open>With an empty token the gate is open and the dispatcher sets the cross-origin header,
  whatever the port and the request.\<close>

lemma gate_open_when_token_empty:
  "mounted jsonErr (NewConnectionData p []) (ViaAPIRouter f) w r
     = apiMiddleware jsonErr True f w r
   \<and> map_of (wHeader (snd (apiMiddleware jsonErr True f w r))) ''Access-Control-Allow-Origin''
       = Some ''http://localhost:8080''"
  by (cases "f r")
     (auto simp: NewConnectionData_def isDev_def ensureAPITokenValid_def isAPITokenValid_def
      apiMiddleware_def apiMiddleware_body_def writeJSON_def Let_def wHeader_Write Set_def
      split: option.splits)

subsection \<open>The dispatcher\<close>

lemma wHeader_apiMiddleware:
  "wHeader (snd (apiMiddleware jsonErr dev h w r)) =
     (if dev
      then Set (Set (wHeader w) ''Content-Type'' ''text/json'')
             ''Access-Control-Allow-Origin'' ''http://localhost:8080''
      else Set (wHeader w) ''Content-Type'' ''text/json'')"
  by (cases "h r")
     (auto simp: apiMiddleware_def apiMiddleware_body_def writeJSON_def Let_def wHeader_Write
      split: option.splits)

text \<open>
  C3: on a writer to which nothing has been written, the dispatcher lets no panic escape,
  so the request ends normally and later requests are served; the status is the default
  200 in every case; the body is the document of the value when the business function
  returns a value that has a JSON encoding and no error, the error map of the message when
  it returns an error, and the error map of the panic text when it panics. (A value that
  the encoder rejects makes \<^verbatim>\<open>writeJSON\<close> panic, and the body is the error map of the
  encoder's error.)
\<close>

theorem apiMiddleware_envelope:
  assumes "wStatus w = None"
  shows "fst (apiMiddleware jsonErr dev h w r) = None
    \<and> wStatus (snd (apiMiddleware jsonErr dev h w r)) = Some StatusOK
    \<and> StatusOK = 200
    \<and> (\<forall>v. h r = Return v None \<and> jsonErr v = None \<longrightarrow>
          wBody (snd (apiMiddleware jsonErr dev h w r)) = wBody w @ [Doc (Value v)])
    \<and> (\<forall>v e. h r = Return v (Some e) \<longrightarrow>
          wBody (snd (apiMiddleware jsonErr dev h w r)) = wBody w @ [Doc (ErrorMap e)])
    \<and> (\<forall>t. h r = Panic t \<longrightarrow>
          wBody (snd (apiMiddleware jsonErr dev h w r)) = wBody w @ [Doc (ErrorMap t)])
    \<and> (\<forall>v e. h r = Return v None \<and> jsonErr v = Some e \<longrightarrow>
          wBody (snd (apiMiddleware jsonErr dev h w r)) = wBody w @ [Doc (ErrorMap e)])"
  using assms
  by (cases "h r")
     (auto simp: apiMiddleware_def apiMiddleware_body_def writeJSON_def Let_def wStatus_Write
      wBody_Write StatusOK_def split: option.splits)

theorem apiMiddleware_envelope_witness:
  "wStatus (newResponseWriter :: nat ResponseWriter) = None
   \<and> apiMiddleware noJSONError False exampleFunc newResponseWriter (request ''GET'' ''/api/value'' [])
       = (None, \<lparr>wHeader = [(''Content-Type'', ''text/json'')], wStatus = Some 200,
                 wBody = [Doc (Value 7)]\<rparr>)
   \<and> apiMiddleware noJSONError False exampleFunc newResponseWriter (request ''GET'' ''/api/error'' [])
       = (None, \<lparr>wHeader = [(''Content-Type'', ''text/json'')], wStatus = Some 200,
                 wBody = [Doc (ErrorMap ''not found'')]\<rparr>)
   \<and> apiMiddleware noJSONError False exampleFunc newResponseWriter (request ''GET'' ''/api/panic'' [])
       = (None, \<lparr>wHeader = [(''Content-Type'', ''text/json'')], wStatus = Some 200,
                 wBody = [Doc (ErrorMap ''index out of range'')]\<rparr>)"
proof -
  have fresh: "wStatus (newResponseWriter :: nat ResponseWriter) = None"
    by (simp add: newResponseWriter_def)
  have v: "exampleFunc (request ''GET'' ''/api/value'' []) = Return 7 None"
    and e: "exampleFunc (request ''GET'' ''/api/error'' []) = Return 0 (Some ''not found'')"
    and p: "exampleFunc (request ''GET'' ''/api/panic'' []) = Panic ''index out of range''"
    by (simp_all add: exampleFunc_def request_def)
  have hdr: "wHeader (snd (apiMiddleware noJSONError False exampleFunc newResponseWriter r))
      = [(''Content-Type'', ''text/json'')]" for r
    by (simp add: wHeader_apiMiddleware newResponseWriter_def Set_def)
  have empty: "wBody (newResponseWriter :: nat ResponseWriter) = []"
    by (simp add: newResponseWriter_def)
  note t = apiMiddleware_envelope [OF fresh, of noJSONError False exampleFunc]
  have "apiMiddleware noJSONError False exampleFunc newResponseWriter (request ''GET'' ''/api/value'' [])
       = (None, \<lparr>wHeader = [(''Content-Type'', ''text/json'')], wStatus = Some 200,
                 wBody = [Doc (Value 7)]\<rparr>)"
    using t [of "request ''GET'' ''/api/value'' []"] v hdr [of "request ''GET'' ''/api/value'' []"] empty
    by (auto simp: prod_eq_iff noJSONError_def intro!: ResponseWriter.equality)
  moreover
  have "apiMiddleware noJSONError False exampleFunc newResponseWriter (request ''GET'' ''/api/error'' [])
       = (None, \<lparr>wHeader = [(''Content-Type'', ''text/json'')], wStatus = Some 200,
                 wBody = [Doc (ErrorMap ''not found'')]\<rparr>)"
    using t [of "request ''GET'' ''/api/error'' []"] e hdr [of "request ''GET'' ''/api/error'' []"] empty
    by (auto simp: prod_eq_iff intro!: ResponseWriter.equality)
  moreover
  have "apiMiddleware noJSONError False exampleFunc newResponseWriter (request ''GET'' ''/api/panic'' [])
       = (None, \<lparr>wHeader = [(''Content-Type'', ''text/json'')], wStatus = Some 200,
                 wBody = [Doc (ErrorMap ''index out of range'')]\<rparr>)"
    using t [of "request ''GET'' ''/api/panic'' []"] p hdr [of "request ''GET'' ''/api/panic'' []"] empty
    by (auto simp: prod_eq_iff intro!: ResponseWriter.equality)
  ultimately show ?thesis using fresh by simp
qed

subsection \<open>The allow-list of /api/open\<close>

lemma seqLen_ascii: "between 0x00 b0 0x7F \<Longrightarrow> seqLen (b0 # bs) = 1"
  by simp

lemma seqLen_le: "seqLen s \<le> length s"
  by (cases s) (auto split: list.splits)

lemma seqLen_append: "seqLen a = Suc k \<Longrightarrow> seqLen (a @ b) = Suc k"
  by (cases a) (auto split: list.splits if_splits)

declare seqLen.simps(2) [simp del]

lemma runes_ascii_Cons: "between 0x00 c 0x7F \<Longrightarrow> runes (c # cs) = Encoded [c] # runes cs"
  by (simp add: seqLen_ascii runeOf_def)

lemma validUTF8_ascii_Cons: "between 0x00 c 0x7F \<Longrightarrow> validUTF8 (c # cs) = validUTF8 cs"
  by (simp add: seqLen_ascii)

declare runes.simps(2) [simp del] validUTF8.simps(2) [simp del]

lemma runes_append: "validUTF8 a \<Longrightarrow> runes (a @ b) = runes a @ runes b"
proof (induction a rule: validUTF8.induct)
  case 1
  then show ?case by simp
next
  case (2 b0 bs)
  from "2.prems" obtain k where k: "seqLen (b0 # bs) = Suc k" and v: "validUTF8 (drop k bs)"
    by (auto simp: validUTF8.simps split: nat.splits)
  have le: "k \<le> length bs" using seqLen_le [of "b0 # bs"] k by simp
  have k': "seqLen (b0 # bs @ b) = Suc k" using seqLen_append [OF k, of b] by simp
  from "2.IH" [OF k v] have "runes (drop k bs @ b) = runes (drop k bs) @ runes b" .
  with k k' le show ?case by (simp add: runes.simps)
qed

lemma validUTF8_ascii: "ascii s \<Longrightarrow> validUTF8 s"
  by (induction s) (auto simp: ascii_def validUTF8_ascii_Cons)

lemma length_runes_ascii: "ascii s \<Longrightarrow> length (runes s) = length s"
  by (induction s) (auto simp: ascii_def runes_ascii_Cons)

lemma runes_head_ascii:
  assumes "between 0x00 c 0x7F"
  shows "(\<exists>rs. runes s = Encoded [c] # rs) \<longleftrightarrow> (\<exists>t. s = c # t)"
proof
  assume "\<exists>rs. runes s = Encoded [c] # rs"
  then obtain rs where rs: "runes s = Encoded [c] # rs" by blast
  then obtain d ds where s: "s = d # ds" by (cases s) auto
  show "\<exists>t. s = c # t"
  proof (cases "seqLen (d # ds)")
    case 0
    with rs s show ?thesis by (simp add: runes.simps)
  next
    case (Suc k)
    with rs s have "runeOf (d # take k ds) = Encoded [c]" by (simp add: runes.simps)
    then have "d = c" by (auto simp: runeOf_def split: if_splits)
    with s show ?thesis by blast
  qed
next
  assume "\<exists>t. s = c # t"
  with assms show "\<exists>rs. runes s = Encoded [c] # rs" by (auto simp: runes_ascii_Cons)
qed

lemma prefix_runes_ascii: "ascii l \<Longrightarrow> prefix (runes l) (runes s) \<longleftrightarrow> prefix l s"
proof (induction l arbitrary: s)
  case Nil
  then show ?case by simp
next
  case (Cons c l)
  then have c: "between 0x00 c 0x7F" and l: "ascii l" by (auto simp: ascii_def)
  show ?case
  proof (cases "\<exists>t. s = c # t")
    case True
    then obtain t where "s = c # t" by blast
    with c Cons.IH [OF l, of t] show ?thesis by (simp add: runes_ascii_Cons)
  next
    case False
    then have "\<not> prefix (c # l) s" by (auto simp: prefix_def)
    moreover from False runes_head_ascii [OF c, of s] have "\<not> prefix (runes (c # l)) (runes s)"
      using c by (auto simp: runes_ascii_Cons prefix_def)
    ultimately show ?thesis by simp
  qed
qed

lemma drop_runes_ascii:
  "ascii l \<Longrightarrow> prefix l s \<Longrightarrow> drop (length (runes l)) (runes s) = runes (drop (length l) s)"
  by (auto simp: prefix_def runes_append validUTF8_ascii length_runes_ascii)

lemma prefix_runes: "validUTF8 l \<Longrightarrow> prefix l s \<Longrightarrow> prefix (runes l) (runes s)"
  by (auto simp: prefix_def runes_append)

lemma urlLoop_set: "urlLoop url ws blocked \<longleftrightarrow> url \<notin> set ws \<and> blocked"
  by (induction ws) auto

lemma prefix_append_drop: "prefix (a @ b) s \<longleftrightarrow> prefix a s \<and> prefix b (drop (length a) s)"
  by (auto simp: prefix_def)

lemma matchPieces_ascii:
  "\<forall>p \<in> set ps. ascii (pieceText p) \<Longrightarrow> matchPieces ps (runes s) = matchBytes ps s"
proof (induction ps arbitrary: s)
  case Nil
  then show ?case by simp
next
  case (Cons p ps)
  then have rest: "\<And>t. matchPieces ps (runes t) = matchBytes ps t"
    and a: "ascii (pieceText p)"
    by auto
  have step: "(prefix (runes l) (runes s) \<and> matchPieces ps (drop (length (runes l)) (runes s)))
      = (prefix l s \<and> matchBytes ps (drop (length l) s))" if l: "ascii l" for l
  proof (cases "prefix l s")
    case True
    have "drop (length (runes l)) (runes s) = runes (drop (length l) s)"
      using drop_runes_ascii [OF l True] .
    with True rest show ?thesis
      by (simp only: prefix_runes_ascii [OF l])
  next
    case False
    then show ?thesis
      by (simp only: prefix_runes_ascii [OF l] simp_thms)
  qed
  show ?case
  proof (cases p)
    case (Lit l)
    with a step [of l] show ?thesis by (simp del: prefix_runes_ascii)
  next
    case (Opt l)
    with a step [of l] rest [of s] show ?thesis by (simp del: prefix_runes_ascii)
  qed
qed

lemma MustCompile_ascii:
  "\<forall>p \<in> set ps. ascii (pieceText p) \<Longrightarrow> MustCompile ps = Inr (Regexp ps)"
  by (simp add: MustCompile_def validUTF8_ascii)

lemma ascii_Cons: "ascii (c # cs) \<longleftrightarrow> between 0x00 c 0x7F \<and> ascii cs"
  by (simp add: ascii_def)

lemma ascii_Nil: "ascii []"
  by (simp add: ascii_def)

lemma matchBytes_blockstream:
  "matchBytes [Lit ''https://blockstream.info/'', Opt ''testnet/'', Lit ''tx/''] s \<longleftrightarrow>
     prefix ''https://blockstream.info/tx/'' s \<or> prefix ''https://blockstream.info/testnet/tx/'' s"
proof -
  have a: "''https://blockstream.info/tx/'' = ''https://blockstream.info/'' @ ''tx/''"
    by simp
  have b: "''https://blockstream.info/testnet/tx/'' = ''https://blockstream.info/'' @ ''testnet/'' @ ''tx/''"
    by simp
  show ?thesis
    unfolding a b prefix_append_drop by auto
qed

lemma whitelistedPatterns_ascii:
  "\<forall>ps \<in> set whitelistedPatterns. \<forall>p \<in> set ps. ascii (pieceText p)"
  by (simp add: whitelistedPatterns_def ascii_Cons ascii_Nil between_def)

lemma patternLoop_ascii:
  "\<forall>ps \<in> set pats. \<forall>p \<in> set ps. ascii (pieceText p) \<Longrightarrow>
     patternLoop url (pats @ others) blocked =
       (if \<exists>ps \<in> set pats. matchBytes ps url then Inr False else patternLoop url others blocked)"
  by (induction pats) (auto simp: MustCompile_ascii matchPieces_ascii)

lemma matchBytes_Lit: "matchBytes [Lit l] s \<longleftrightarrow> prefix l s"
  by simp

lemma whitelistedPatterns_match:
  "(\<exists>ps \<in> set whitelistedPatterns. matchBytes ps url) \<longleftrightarrow> matchesPattern url"
proof -
  have "(\<exists>ps \<in> set whitelistedPatterns. matchBytes ps url) \<longleftrightarrow>
      matchBytes [Lit ''https://blockstream.info/'', Opt ''testnet/'', Lit ''tx/''] url
      \<or> matchBytes [Lit ''http://explorer.litecointools.com/tx/''] url
      \<or> matchBytes [Lit ''https://insight.litecore.io/tx/''] url
      \<or> matchBytes [Lit ''https://etherscan.io/tx/''] url
      \<or> matchBytes [Lit ''https://rinkeby.etherscan.io/tx/''] url
      \<or> matchBytes [Lit ''https://ropsten.etherscan.io/tx/''] url"
    by (simp add: whitelistedPatterns_def del: matchBytes.simps)
  also have "\<dots> \<longleftrightarrow> matchesPattern url"
    by (simp only: matchBytes_blockstream matchBytes_Lit matchesPattern_def disj_assoc)
  finally show ?thesis .
qed

lemma patternLoop_whitelist:
  "patternLoop url (whitelistedPatterns @ [[Lit downloadDir]]) blocked =
     (if matchesPattern url then Inr False
      else if \<not> validUTF8 downloadDir then Inl ''regexp: Compile: error parsing regexp: invalid UTF-8''
      else if beginsWith downloadDir url then Inr False
      else Inr blocked)"
  by (simp add: patternLoop_ascii [OF whitelistedPatterns_ascii] whitelistedPatterns_match
      MustCompile_def beginsWith_def)






lemma ascii_Downloads: "ascii ''/home/u/Downloads''"
  by (simp add: ascii_Cons ascii_Nil between_def)

text \<open>A URL that only starts with the path of the downloads directory, without lying inside
  it, is handed to the opener as well.\<close>

lemma postOpenHandler_prefix_only:
  "\<not> insideDir ''/home/u/Downloads'' ''/home/u/Downloads-evil/x''
   \<and> postOpenHandler (Inr ''/home/u/Downloads-evil/x'') (Inr ''/home/u/Downloads'') openSucceeds []
       = (Return GoNil None, [''/home/u/Downloads-evil/x''])"
proof -
  have "prefix ''/home/u/Downloads'' ''/home/u/Downloads-evil/x''"
    by simp
  then have "beginsWith ''/home/u/Downloads'' ''/home/u/Downloads-evil/x''"
    unfolding beginsWith_def by (rule prefix_runes [OF validUTF8_ascii [OF ascii_Downloads]])
  moreover have "\<not> insideDir ''/home/u/Downloads'' ''/home/u/Downloads-evil/x''"
    by (simp add: insideDir_def)
  ultimately show ?thesis
    by (simp add: postOpenHandler_def Let_def urlLoop_set patternLoop_whitelist
        validUTF8_ascii [OF ascii_Downloads] openSucceeds_def)
qed


subsection \<open>The registry\<close>

lemma objectOf_inj: "objectOf c = objectOf c' \<longleftrightarrow> c = c'"
  by (cases c; cases c') auto

lemma snd_objectOf_inj: "snd (objectOf c) = snd (objectOf c') \<longleftrightarrow> c = c'"
  by (cases c; cases c') auto

lemma getOrCreate_entry: "getOrCreate c st = (h, st') \<Longrightarrow> entry st' c = Some h"
  by (cases c) (auto simp: getAccountHandlers_def getDeviceHandlers_def Let_def split: option.splits)

lemma getOrCreate_hit: "entry st c = Some h \<Longrightarrow> getOrCreate c st = (h, st)"
  by (cases c) (auto simp: getAccountHandlers_def getDeviceHandlers_def)

lemma getOrCreate_other: "getOrCreate c st = (h, st') \<Longrightarrow> c' \<noteq> c \<Longrightarrow> entry st' c' = entry st c'"
  by (cases c; cases c') (auto simp: getAccountHandlers_def getDeviceHandlers_def Let_def split: option.splits)

lemma getOrCreate_keeps: "getOrCreate c st = (h, st') \<Longrightarrow> entry st c' = Some x \<Longrightarrow> entry st' c' = Some x"
  by (cases "c' = c") (auto simp: getOrCreate_other getOrCreate_hit)

lemma getOrCreate_miss:
  "entry st c = None \<Longrightarrow> getOrCreate c st = (h, st') \<Longrightarrow>
     h = length (objects st) \<and> objects st' = objects st @ [objectOf c]
     \<and> subrouters st' = subrouters st @ [snd (objectOf c)] \<and> calls st' = calls st"
  by (cases c) (auto simp: getAccountHandlers_def getDeviceHandlers_def Let_def)

lemma getOrCreate_registryInv:
  assumes "registryInv st" and "getOrCreate c st = (h, st')"
  shows "registryInv st'"
proof (cases "entry st c")
  case (Some x)
  with assms show ?thesis by (simp add: getOrCreate_hit)
next
  case None
  note miss = getOrCreate_miss [OF None assms(2)]
  show ?thesis
    unfolding registryInv_def
  proof (intro allI)
    fix c'
    show "count_list (objects st') (objectOf c') = (if entry st' c' = None then 0 else 1)
       \<and> count_list (subrouters st') (snd (objectOf c')) = (if entry st' c' = None then 0 else 1)"
    proof (cases "c' = c")
      case True
      with assms(1) None miss getOrCreate_entry [OF assms(2)] show ?thesis
        by (simp add: registryInv_def)
    next
      case False
      with assms(1) miss getOrCreate_other [OF assms(2) False] show ?thesis
        by (simp add: registryInv_def objectOf_inj snd_objectOf_inj)
    qed
  qed
qed

lemma runLookups_length: "runLookups cs st = (hs, st') \<Longrightarrow> length hs = length cs"
  by (induction cs arbitrary: st hs) (auto split: prod.splits)

lemma runLookups_registryInv: "registryInv st \<Longrightarrow> runLookups cs st = (hs, st') \<Longrightarrow> registryInv st'"
proof (induction cs arbitrary: st hs)
  case Nil
  then show ?case by simp
next
  case (Cons c cs)
  then show ?case
    by (auto split: prod.splits dest: getOrCreate_registryInv)
qed

lemma runLookups_hit:
  "entry st c = Some h \<Longrightarrow> runLookups cs st = (hs, st') \<Longrightarrow>
     entry st' c = Some h \<and> (\<forall>i<length cs. cs ! i = c \<longrightarrow> hs ! i = h)"
proof (induction cs arbitrary: st hs)
  case Nil
  then show ?case by simp
next
  case (Cons c0 cs)
  obtain h0 st0 where step: "getOrCreate c0 st = (h0, st0)" by (cases "getOrCreate c0 st")
  obtain hs' where rest: "runLookups cs st0 = (hs', st')" and hs: "hs = h0 # hs'"
    using Cons.prems(2) step by (auto split: prod.splits)
  have keep: "entry st0 c = Some h" using getOrCreate_keeps [OF step Cons.prems(1)] .
  have first: "c0 = c \<Longrightarrow> h0 = h" using getOrCreate_hit [OF Cons.prems(1)] step by simp
  from Cons.IH [OF keep rest] first hs show ?case
    by (auto simp: nth_Cons split: nat.splits)
qed

lemma runLookups_miss:
  "entry st c = None \<Longrightarrow> runLookups cs st = (hs, st') \<Longrightarrow>
     (if c \<in> set cs
      then \<exists>h. entry st' c = Some h \<and> (\<forall>i<length cs. cs ! i = c \<longrightarrow> hs ! i = h)
      else entry st' c = None)"
proof (induction cs arbitrary: st hs)
  case Nil
  then show ?case by simp
next
  case (Cons c0 cs)
  obtain h0 st0 where step: "getOrCreate c0 st = (h0, st0)" by (cases "getOrCreate c0 st")
  obtain hs' where rest: "runLookups cs st0 = (hs', st')" and hs: "hs = h0 # hs'"
    using Cons.prems(2) step by (auto split: prod.splits)
  show ?case
  proof (cases "c0 = c")
    case True
    have "entry st0 c = Some h0" using getOrCreate_entry step True by simp
    from runLookups_hit [OF this rest] True hs show ?thesis
      by (auto simp: nth_Cons split: nat.splits)
  next
    case False
    then have "entry st0 c = None" using getOrCreate_other [OF step] Cons.prems(1) by simp
    from Cons.IH [OF this rest] False hs show ?thesis
      by (auto simp: nth_Cons split: nat.splits if_splits)
  qed
qed

lemma registryInv_newRegistry: "registryInv newRegistry"
proof -
  have "entry newRegistry c = None" for c
    by (cases c) (simp_all add: newRegistry_def)
  moreover have "objects newRegistry = []" and "subrouters newRegistry = []"
    by (simp_all add: newRegistry_def)
  ultimately show ?thesis
    by (simp add: registryInv_def)
qed

text \<open>
  C6: after any sequence of lookups from the state that \<^verbatim>\<open>NewHandlers\<close> creates, the
  sub-handler of a key and its route subtree have been constructed exactly once if the key
  was looked up at all, however often, and never otherwise; every lookup of the key
  returned the same reference, and a further lookup returns it again and leaves the state
  as it is.
\<close>

theorem getOrCreate_once:
  assumes "runLookups cs newRegistry = (hs, st)"
  shows "count_list (objects st) (objectOf c) = (if c \<in> set cs then 1 else 0)
     \<and> count_list (subrouters st) (snd (objectOf c)) = (if c \<in> set cs then 1 else 0)
     \<and> (c \<in> set cs \<longrightarrow>
          (\<exists>h. (\<forall>i<length cs. cs ! i = c \<longrightarrow> hs ! i = h) \<and> getOrCreate c st = (h, st)))"
proof -
  have none: "entry newRegistry c = None" by (cases c) (auto simp: newRegistry_def)
  have rinv: "registryInv st" using runLookups_registryInv [OF registryInv_newRegistry assms] .
  note m = runLookups_miss [OF none assms]
  show ?thesis
  proof (cases "c \<in> set cs")
    case True
    with m obtain h where h: "entry st c = Some h" "\<forall>i<length cs. cs ! i = c \<longrightarrow> hs ! i = h"
      by auto
    with rinv True getOrCreate_hit [OF h(1)] show ?thesis
      by (auto simp: registryInv_def)
  next
    case False
    with m rinv show ?thesis by (auto simp: registryInv_def)
  qed
qed

lemma runLookups_example:
  "runLookups [GetAccount ''a'', GetDevice ''d'', GetAccount ''a''] newRegistry =
     ([0, 1, 0],
      \<lparr>accountHandlersMap = [''a'' \<mapsto> 0], deviceHandlersMap = [''d'' \<mapsto> 1],
       subrouters = [''/api/account/a'', ''/api/devices/d''],
       objects = [(AccountHandlers, ''/api/account/a''), (DeviceHandlers, ''/api/devices/d'')],
       calls = []\<rparr>)"
  by (simp add: getAccountHandlers_def getDeviceHandlers_def newRegistry_def Let_def)

theorem getOrCreate_once_witness:
  "runLookups [GetAccount ''a'', GetDevice ''d'', GetAccount ''a''] newRegistry =
     ([0, 1, 0],
      \<lparr>accountHandlersMap = [''a'' \<mapsto> 0], deviceHandlersMap = [''d'' \<mapsto> 1],
       subrouters = [''/api/account/a'', ''/api/devices/d''],
       objects = [(AccountHandlers, ''/api/account/a''), (DeviceHandlers, ''/api/devices/d'')],
       calls = []\<rparr>)
   \<and> GetAccount ''a'' \<in> set [GetAccount ''a'', GetDevice ''d'', GetAccount ''a'']
   \<and> count_list [(AccountHandlers, ''/api/account/a''), (DeviceHandlers, ''/api/devices/d'')]
         (objectOf (GetAccount ''a'')) = 1
   \<and> count_list [''/api/account/a'', ''/api/devices/d''] (snd (objectOf (GetAccount ''a''))) = 1
   \<and> [0, 1, 0 :: nat] ! 0 = [0, 1, 0] ! 2"
  using getOrCreate_once [OF runLookups_example, of "GetAccount ''a''"] runLookups_example
  by simp

lemma entry_calls_update: "entry (st\<lparr>calls := x\<rparr>) c = entry st c"
  by (cases c) simp_all

lemma handleEvent_entry:
  assumes "lookupOf e \<noteq> Some c"
  shows "entry (handleEvent e st) c = entry st c"
proof (cases e)
  case (AccountInit code)
  obtain h st' where g: "getOrCreate (GetAccount code) st = (h, st')"
    by (cases "getOrCreate (GetAccount code) st")
  from assms AccountInit have "c \<noteq> GetAccount code" by auto
  from getOrCreate_other [OF g this] g AccountInit show ?thesis
    by (simp add: onAccountInit_def entry_calls_update)
next
  case (AccountUninit code)
  obtain h st' where g: "getOrCreate (GetAccount code) st = (h, st')"
    by (cases "getOrCreate (GetAccount code) st")
  from assms AccountUninit have "c \<noteq> GetAccount code" by auto
  from getOrCreate_other [OF g this] g AccountUninit show ?thesis
    by (simp add: onAccountUninit_def entry_calls_update)
next
  case (DeviceInit d)
  show ?thesis
  proof (cases d)
    case (BitboxDevice deviceID)
    obtain h st' where g: "getOrCreate (GetDevice deviceID) st = (h, st')"
      by (cases "getOrCreate (GetDevice deviceID) st")
    from assms DeviceInit BitboxDevice have "c \<noteq> GetDevice deviceID" by auto
    from getOrCreate_other [OF g this] g DeviceInit BitboxDevice show ?thesis
      by (simp add: entry_calls_update)
  next
    case (OtherDevice deviceID)
    with DeviceInit show ?thesis by simp
  qed
next
  case (DeviceUninit deviceID)
  obtain h st' where g: "getOrCreate (GetDevice deviceID) st = (h, st')"
    by (cases "getOrCreate (GetDevice deviceID) st")
  from assms DeviceUninit have "c \<noteq> GetDevice deviceID" by auto
  from getOrCreate_other [OF g this] g DeviceUninit show ?thesis
    by (simp add: onDeviceUninit_def entry_calls_update)
qed

lemma runEvents_entry:
  "\<forall>e \<in> set evs. lookupOf e \<noteq> Some c \<Longrightarrow> entry (runEvents evs st) c = entry st c"
  by (induction evs arbitrary: st) (simp_all add: handleEvent_entry)

lemma entry_newRegistry: "entry newRegistry c = None"
  by (cases c) (simp_all add: newRegistry_def)

text \<open>
  C9 as stated fails: for a device that was never initialised, the callback of the uninit
  event creates the registry entry, the sub-handler and its subrouter, and calls
  \<^verbatim>\<open>Uninit\<close> on the sub-handler just created.
\<close>

theorem uninit_without_init_creates:
  "deviceHandlersMap newRegistry ''dev1'' = None
   \<and> deviceHandlersMap (onDeviceUninit ''dev1'' newRegistry) ''dev1'' = Some 0
   \<and> objects (onDeviceUninit ''dev1'' newRegistry) = [(DeviceHandlers, ''/api/devices/dev1'')]
   \<and> subrouters (onDeviceUninit ''dev1'' newRegistry) = [''/api/devices/dev1'']
   \<and> calls (onDeviceUninit ''dev1'' newRegistry) = [UninitCall 0]"
  by (simp add: onDeviceUninit_def getDeviceHandlers_def newRegistry_def Let_def)

text \<open>
  C9, amended: an uninit event for a key that has no registry entry, of a device or of an
  account, creates the entry with a new sub-handler and its subrouter and then calls
  \<^verbatim>\<open>Uninit\<close> on that sub-handler; there is no guard. A key has no entry after every
  sequence of events none of which looks the key up, that is, when neither an init nor
  an uninit event of the key came before.
\<close>

theorem uninit_lazily_creates:
  "(deviceHandlersMap st deviceID = None \<longrightarrow>
      deviceHandlersMap (onDeviceUninit deviceID st) deviceID = Some (length (objects st))
      \<and> objects (onDeviceUninit deviceID st)
          = objects st @ [(DeviceHandlers, ''/api/devices/'' @ deviceID)]
      \<and> subrouters (onDeviceUninit deviceID st) = subrouters st @ [''/api/devices/'' @ deviceID]
      \<and> calls (onDeviceUninit deviceID st) = calls st @ [UninitCall (length (objects st))])
   \<and> (accountHandlersMap st code = None \<longrightarrow>
      accountHandlersMap (onAccountUninit code st) code = Some (length (objects st))
      \<and> objects (onAccountUninit code st)
          = objects st @ [(AccountHandlers, ''/api/account/'' @ code)]
      \<and> subrouters (onAccountUninit code st) = subrouters st @ [''/api/account/'' @ code]
      \<and> calls (onAccountUninit code st) = calls st @ [UninitCall (length (objects st))])
   \<and> ((\<forall>e \<in> set evs. lookupOf e \<noteq> Some (GetDevice deviceID)) \<longrightarrow>
        deviceHandlersMap (runEvents evs newRegistry) deviceID = None)
   \<and> ((\<forall>e \<in> set evs. lookupOf e \<noteq> Some (GetAccount code)) \<longrightarrow>
        accountHandlersMap (runEvents evs newRegistry) code = None)"
proof -
  have 1: "deviceHandlersMap st deviceID = None \<longrightarrow>
      deviceHandlersMap (onDeviceUninit deviceID st) deviceID = Some (length (objects st))
      \<and> objects (onDeviceUninit deviceID st)
          = objects st @ [(DeviceHandlers, ''/api/devices/'' @ deviceID)]
      \<and> subrouters (onDeviceUninit deviceID st) = subrouters st @ [''/api/devices/'' @ deviceID]
      \<and> calls (onDeviceUninit deviceID st) = calls st @ [UninitCall (length (objects st))]"
    by (simp add: onDeviceUninit_def getDeviceHandlers_def Let_def)
  have 2: "accountHandlersMap st code = None \<longrightarrow>
      accountHandlersMap (onAccountUninit code st) code = Some (length (objects st))
      \<and> objects (onAccountUninit code st)
          = objects st @ [(AccountHandlers, ''/api/account/'' @ code)]
      \<and> subrouters (onAccountUninit code st) = subrouters st @ [''/api/account/'' @ code]
      \<and> calls (onAccountUninit code st) = calls st @ [UninitCall (length (objects st))]"
    by (simp add: onAccountUninit_def getAccountHandlers_def Let_def)
  have 3: "(\<forall>e \<in> set evs. lookupOf e \<noteq> Some (GetDevice deviceID)) \<longrightarrow>
        deviceHandlersMap (runEvents evs newRegistry) deviceID = None"
    using runEvents_entry [of evs "GetDevice deviceID" newRegistry]
      entry_newRegistry [of "GetDevice deviceID"] by simp
  have 4: "(\<forall>e \<in> set evs. lookupOf e \<noteq> Some (GetAccount code)) \<longrightarrow>
        accountHandlersMap (runEvents evs newRegistry) code = None"
    using runEvents_entry [of evs "GetAccount code" newRegistry]
      entry_newRegistry [of "GetAccount code"] by simp
  from 1 2 3 4 show ?thesis by (intro conjI)
qed

lemma runEvents_example:
  "runEvents [AccountInit ''acc1'', DeviceInit (OtherDevice ''dev1''), DeviceUninit ''dev2''] newRegistry =
     \<lparr>accountHandlersMap = [''acc1'' \<mapsto> 0], deviceHandlersMap = [''dev2'' \<mapsto> 1],
      subrouters = [''/api/account/acc1'', ''/api/devices/dev2''],
      objects = [(AccountHandlers, ''/api/account/acc1''), (DeviceHandlers, ''/api/devices/dev2'')],
      calls = [InitCall 0, UninitCall 1]\<rparr>"
  by (simp add: onAccountInit_def onDeviceUninit_def getAccountHandlers_def getDeviceHandlers_def
      newRegistry_def Let_def)

theorem uninit_lazily_creates_witness:
  "lookupOf (AccountInit ''acc1'') \<noteq> Some (GetDevice ''dev1'')
   \<and> lookupOf (DeviceInit (OtherDevice ''dev1'')) \<noteq> Some (GetDevice ''dev1'')
   \<and> lookupOf (DeviceUninit ''dev2'') \<noteq> Some (GetDevice ''dev1'')
   \<and> lookupOf (AccountInit ''acc1'') \<noteq> Some (GetAccount ''acc2'')
   \<and> lookupOf (DeviceInit (OtherDevice ''dev1'')) \<noteq> Some (GetAccount ''acc2'')
   \<and> lookupOf (DeviceUninit ''dev2'') \<noteq> Some (GetAccount ''acc2'')
   \<and> deviceHandlersMap
        (runEvents [AccountInit ''acc1'', DeviceInit (OtherDevice ''dev1''), DeviceUninit ''dev2'']
           newRegistry) ''dev1'' = None
   \<and> accountHandlersMap
        (runEvents [AccountInit ''acc1'', DeviceInit (OtherDevice ''dev1''), DeviceUninit ''dev2'']
           newRegistry) ''acc2'' = None
   \<and> calls (onDeviceUninit ''dev1''
        (runEvents [AccountInit ''acc1'', DeviceInit (OtherDevice ''dev1''), DeviceUninit ''dev2'']
           newRegistry))
       = [InitCall 0, UninitCall 1, UninitCall 2]
   \<and> objects (onAccountUninit ''acc2''
        (runEvents [AccountInit ''acc1'', DeviceInit (OtherDevice ''dev1''), DeviceUninit ''dev2'']
           newRegistry))
       = [(AccountHandlers, ''/api/account/acc1''), (DeviceHandlers, ''/api/devices/dev2''),
          (AccountHandlers, ''/api/account/acc2'')]"
proof -
  let ?evs = "[AccountInit ''acc1'', DeviceInit (OtherDevice ''dev1''), DeviceUninit ''dev2'']"
  have l: "lookupOf (AccountInit ''acc1'') \<noteq> Some (GetDevice ''dev1'')"
    "lookupOf (DeviceInit (OtherDevice ''dev1'')) \<noteq> Some (GetDevice ''dev1'')"
    "lookupOf (DeviceUninit ''dev2'') \<noteq> Some (GetDevice ''dev1'')"
    "lookupOf (AccountInit ''acc1'') \<noteq> Some (GetAccount ''acc2'')"
    "lookupOf (DeviceInit (OtherDevice ''dev1'')) \<noteq> Some (GetAccount ''acc2'')"
    "lookupOf (DeviceUninit ''dev2'') \<noteq> Some (GetAccount ''acc2'')"
    by simp_all
  have d: "\<forall>e \<in> set ?evs. lookupOf e \<noteq> Some (GetDevice ''dev1'')"
    and a: "\<forall>e \<in> set ?evs. lookupOf e \<noteq> Some (GetAccount ''acc2'')"
    by simp_all
  note t = uninit_lazily_creates [of "runEvents ?evs newRegistry" "''dev1''" "''acc2''" ?evs]
  from t d have 1: "deviceHandlersMap (runEvents ?evs newRegistry) ''dev1'' = None"
    by blast
  from t a have 2: "accountHandlersMap (runEvents ?evs newRegistry) ''acc2'' = None"
    by blast
  from t 1 have 3: "calls (onDeviceUninit ''dev1'' (runEvents ?evs newRegistry))
      = calls (runEvents ?evs newRegistry) @ [UninitCall (length (objects (runEvents ?evs newRegistry)))]"
    by blast
  from t 2 have 4: "objects (onAccountUninit ''acc2'' (runEvents ?evs newRegistry))
      = objects (runEvents ?evs newRegistry) @ [(AccountHandlers, ''/api/account/'' @ ''acc2'')]"
    by blast
  have c3: "calls (onDeviceUninit ''dev1'' (runEvents ?evs newRegistry))
      = [InitCall 0, UninitCall 1, UninitCall 2]"
    using 3 unfolding runEvents_example by simp
  have o4: "objects (onAccountUninit ''acc2'' (runEvents ?evs newRegistry))
      = [(AccountHandlers, ''/api/account/acc1''), (DeviceHandlers, ''/api/devices/dev2''),
         (AccountHandlers, ''/api/account/acc2'')]"
    using 4 unfolding runEvents_example by simp
  from l 1 2 c3 o4 show ?thesis by (intro conjI)
qed

subsection \<open>The certificate and its file\<close>

text \<open>
  C7: when \<^verbatim>\<open>x509.CreateCertificate\<close> does not fail, \<^verbatim>\<open>createSelfSignedCertificate\<close>
  returns a certificate, at every time of generation and for every key (when it fails, the
  process ends). A certificate that it returns starts to be valid at the time of its
  generation and ends to be valid exactly one calendar day later, at the same time of day,
  so that the time of generation is not before the start and is before the end; its
  issuer is its subject and it is signed with the key whose public part it carries; it is
  marked as a certificate authority; its only DNS name is \<open>localhost\<close> and its only
  addresses are 127.0.0.1 and ::1.
\<close>

theorem createSelfSignedCertificate_fields:
  "(\<exists>cert. createSelfSignedCertificate now None privateKey = Ok cert)
   \<and> (\<exists>msg. createSelfSignedCertificate now (Some err) privateKey = Fatal msg)
   \<and> (createSelfSignedCertificate now failure privateKey = Ok cert \<longrightarrow>
        NotBefore (tbs cert) = now
      \<and> NotAfter (tbs cert) = AddDate (NotBefore (tbs cert)) 1
      \<and> civilDay (NotAfter (tbs cert)) = civilDay (NotBefore (tbs cert)) + 1
      \<and> nsOfDay (NotAfter (tbs cert)) = nsOfDay (NotBefore (tbs cert))
      \<and> \<not> Before now (NotBefore (tbs cert))
      \<and> Before now (NotAfter (tbs cert))
      \<and> Issuer cert = Subject (tbs cert)
      \<and> PublicKey cert = Public (signedWith cert)
      \<and> signedWith cert = privateKey
      \<and> IsCA (tbs cert) \<and> BasicConstraintsValid (tbs cert)
      \<and> KeyUsageCertSign \<in> KeyUsage (tbs cert)
      \<and> DNSNames (tbs cert) = [''localhost'']
      \<and> IPAddresses (tbs cert) = [IPv4 127 0 0 1, ParseIP ''::1''])"
proof -
  have 1: "\<exists>cert. createSelfSignedCertificate now None privateKey = Ok cert"
    by (simp add: createSelfSignedCertificate_def CreateCertificate_def Let_def)
  have 2: "\<exists>msg. createSelfSignedCertificate now (Some err) privateKey = Fatal msg"
    by (simp add: createSelfSignedCertificate_def CreateCertificate_def Let_def)
  have 3: "createSelfSignedCertificate now failure privateKey = Ok cert \<longrightarrow>
        NotBefore (tbs cert) = now
      \<and> NotAfter (tbs cert) = AddDate (NotBefore (tbs cert)) 1
      \<and> civilDay (NotAfter (tbs cert)) = civilDay (NotBefore (tbs cert)) + 1
      \<and> nsOfDay (NotAfter (tbs cert)) = nsOfDay (NotBefore (tbs cert))
      \<and> \<not> Before now (NotBefore (tbs cert))
      \<and> Before now (NotAfter (tbs cert))
      \<and> Issuer cert = Subject (tbs cert)
      \<and> PublicKey cert = Public (signedWith cert)
      \<and> signedWith cert = privateKey
      \<and> IsCA (tbs cert) \<and> BasicConstraintsValid (tbs cert)
      \<and> KeyUsageCertSign \<in> KeyUsage (tbs cert)
      \<and> DNSNames (tbs cert) = [''localhost'']
      \<and> IPAddresses (tbs cert) = [IPv4 127 0 0 1, ParseIP ''::1'']"
    by (auto simp: createSelfSignedCertificate_def CreateCertificate_def Let_def AddDate_def Before_def
        split: option.splits)
  from 1 2 3 show ?thesis by (intro conjI)
qed

lemma createSelfSignedCertificate_example:
  "createSelfSignedCertificate \<lparr>civilDay = 20000, nsOfDay = 5\<rparr> None (7::nat) = Ok exampleCertificate"
  by (simp add: createSelfSignedCertificate_def CreateCertificate_def exampleCertificate_def Let_def
      AddDate_def)

theorem createSelfSignedCertificate_fields_witness:
  "createSelfSignedCertificate \<lparr>civilDay = 20000, nsOfDay = 5\<rparr> None (7::nat) = Ok exampleCertificate
   \<and> NotBefore (tbs exampleCertificate) = \<lparr>civilDay = 20000, nsOfDay = 5\<rparr>
   \<and> NotAfter (tbs exampleCertificate) = \<lparr>civilDay = 20001, nsOfDay = 5\<rparr>
   \<and> Before \<lparr>civilDay = 20000, nsOfDay = 5\<rparr> (NotAfter (tbs exampleCertificate))
   \<and> Issuer exampleCertificate = Subject (tbs exampleCertificate)
   \<and> IsCA (tbs exampleCertificate)"
proof -
  note t = createSelfSignedCertificate_fields
    [of "\<lparr>civilDay = 20000, nsOfDay = 5\<rparr>" "7::nat" "[]" None exampleCertificate]
  from t createSelfSignedCertificate_example
  have f: "NotBefore (tbs exampleCertificate) = \<lparr>civilDay = 20000, nsOfDay = 5\<rparr>"
    "Before \<lparr>civilDay = 20000, nsOfDay = 5\<rparr> (NotAfter (tbs exampleCertificate))"
    "Issuer exampleCertificate = Subject (tbs exampleCertificate)"
    "IsCA (tbs exampleCertificate)"
    by blast+
  have g: "NotAfter (tbs exampleCertificate) = \<lparr>civilDay = 20001, nsOfDay = 5\<rparr>"
    by (simp add: exampleCertificate_def)
  from createSelfSignedCertificate_example f g show ?thesis by (intro conjI)
qed

text \<open>
  C8 as stated fails: when the directory of the certificate cannot be created, while the
  port, the key and the certificate are obtained, \<^verbatim>\<open>serve\<close> ends the process with the
  message of \<^verbatim>\<open>saveAsPEM\<close> and starts no server.
\<close>

theorem serve_aborts_when_mkdir_fails:
  "serve failingMkdir = Fatal ''failed to create directory config: permission denied''"
  by (simp add: serve_def failingMkdir_def generateRSAPrivateKey_def createSelfSignedCertificate_def
      CreateCertificate_def saveAsPEM_def tlsServerCertificate_def Let_def)

lemma saveAsPEM_Ok:
  "saveAsPEM fs name pemBytes = Ok e \<longleftrightarrow>
     e = None \<and> MkdirAll fs (Dir fs name) = None \<and> Create fs name = None
     \<and> Encode fs name pemBytes = None \<and> Close fs name = None"
  by (auto simp: saveAsPEM_def Let_def split: option.splits)

lemma serve_Ok_saveAsPEM:
  assumes "serve env = Ok (thePort, server)"
  shows "\<exists>certificate privateKey e. Certificates server = [(certificate, privateKey)]
     \<and> saveAsPEM (fileSystem env) tlsServerCertificate (derToPem ''CERTIFICATE'' certificate) = Ok e"
  using assms
  by (auto simp: serve_def Let_def split: sum.splits outcome.splits)

text \<open>
  C8, amended: when creating the directory, creating the file, encoding or closing fails,
  \<^verbatim>\<open>saveAsPEM\<close> logs the failure with \<^verbatim>\<open>log.Fatalf\<close>, which ends the process;
  \<^verbatim>\<open>serve\<close> starts the server only when all four steps have succeeded for the
  certificate that the server presents.
\<close>

theorem persist_failure_is_fatal:
  "(MkdirAll fs (Dir fs name) \<noteq> None \<or> Create fs name \<noteq> None
      \<or> Encode fs name pemBytes \<noteq> None \<or> Close fs name \<noteq> None
      \<longrightarrow> (\<exists>msg. saveAsPEM fs name pemBytes = Fatal msg))
   \<and> (serve env = Ok (thePort, server) \<longrightarrow>
        (\<exists>certificate privateKey. Certificates server = [(certificate, privateKey)]
           \<and> MkdirAll (fileSystem env) (Dir (fileSystem env) tlsServerCertificate) = None
           \<and> Create (fileSystem env) tlsServerCertificate = None
           \<and> Encode (fileSystem env) tlsServerCertificate (derToPem ''CERTIFICATE'' certificate) = None
           \<and> Close (fileSystem env) tlsServerCertificate = None))"
proof -
  have 1: "\<exists>msg. saveAsPEM fs name pemBytes = Fatal msg"
    if "MkdirAll fs (Dir fs name) \<noteq> None \<or> Create fs name \<noteq> None
      \<or> Encode fs name pemBytes \<noteq> None \<or> Close fs name \<noteq> None"
  proof (cases "saveAsPEM fs name pemBytes")
    case (Fatal msg)
    then show ?thesis by blast
  next
    case (Ok e)
    with that show ?thesis by (auto simp: saveAsPEM_Ok)
  qed
  have 2: "\<exists>certificate privateKey. Certificates server = [(certificate, privateKey)]
           \<and> MkdirAll (fileSystem env) (Dir (fileSystem env) tlsServerCertificate) = None
           \<and> Create (fileSystem env) tlsServerCertificate = None
           \<and> Encode (fileSystem env) tlsServerCertificate (derToPem ''CERTIFICATE'' certificate) = None
           \<and> Close (fileSystem env) tlsServerCertificate = None"
    if "serve env = Ok (thePort, server)"
    using serve_Ok_saveAsPEM [OF that] by (auto simp: saveAsPEM_Ok)
  from 1 2 show ?thesis by blast
qed

lemma serve_workingFiles: "serve workingFiles = Ok (8082, exampleServer)"
  by (simp add: serve_def workingFiles_def generateRSAPrivateKey_def createSelfSignedCertificate_def
      CreateCertificate_def saveAsPEM_def tlsServerCertificate_def derToPem_def AddDate_def Let_def
      exampleServer_def exampleCertificate_def)

theorem persist_failure_is_fatal_witness:
  "MkdirAll (fileSystem failingMkdir) (Dir (fileSystem failingMkdir) tlsServerCertificate) \<noteq> None
   \<and> saveAsPEM (fileSystem failingMkdir) tlsServerCertificate (derToPem ''CERTIFICATE'' exampleCertificate)
        = Fatal ''failed to create directory config: permission denied''
   \<and> serve workingFiles = Ok (8082, exampleServer)
   \<and> MkdirAll (fileSystem workingFiles) (Dir (fileSystem workingFiles) tlsServerCertificate) = None
   \<and> Close (fileSystem workingFiles) tlsServerCertificate = None"
proof -
  have f: "MkdirAll (fileSystem failingMkdir) (Dir (fileSystem failingMkdir) tlsServerCertificate) \<noteq> None"
    by (simp add: failingMkdir_def)
  have g: "saveAsPEM (fileSystem failingMkdir) tlsServerCertificate
      (derToPem ''CERTIFICATE'' exampleCertificate)
        = Fatal ''failed to create directory config: permission denied''"
    by (simp add: failingMkdir_def saveAsPEM_def Let_def)
  note t = persist_failure_is_fatal [of "fileSystem failingMkdir" tlsServerCertificate
      "derToPem ''CERTIFICATE'' exampleCertificate" workingFiles 8082 exampleServer]
  from t serve_workingFiles
  have b: "MkdirAll (fileSystem workingFiles) (Dir (fileSystem workingFiles) tlsServerCertificate) = None
     \<and> Close (fileSystem workingFiles) tlsServerCertificate = None"
    by blast
  from f g b serve_workingFiles show ?thesis by simp
qed

subsection \<open>Conversion from fiat\<close>

lemma replicate_8: "replicate 8 c = [c, c, c, c, c, c, c, c]"
  by (simp add: eval_nat_numeral)

text \<open>
  C10: when the amount parses, a rate that compares equal to zero (as the rate of an unknown
  pair does) gives the answer with success and the amount \<open>0.00000000\<close>, whatever the
  division function is, so no division takes part in it; a rate that compares unequal to
  zero gives the formatted quotient of the amount and the rate.
\<close>

theorem convertFromFiat_zero_rate:
  assumes "ParseFloat ops (Get (urlQuery r) ''amount'') = Some amountAsFloat"
  shows "(\<not> neqZero (rateOf Rates (Get (urlQuery r) ''to'') (Get (urlQuery r) ''from'')) \<longrightarrow>
            (\<forall>d. getConvertFromFiatHandler (ops\<lparr>fdiv := d\<rparr>) Rates r =
               Return (GoMap [(''success'', GoBool True), (''amount'', GoString ''0.00000000'')]) None))
       \<and> (neqZero (rateOf Rates (Get (urlQuery r) ''to'') (Get (urlQuery r) ''from'')) \<longrightarrow>
            getConvertFromFiatHandler ops Rates r =
               Return (GoMap [(''success'', GoBool True),
                 (''amount'', GoString (FormatFloat ops
                    (fdiv ops amountAsFloat
                       (rateOf Rates (Get (urlQuery r) ''to'') (Get (urlQuery r) ''from''))) 8))]) None)
       \<and> (Rates (Get (urlQuery r) ''to'') = None \<longrightarrow>
            rateOf Rates (Get (urlQuery r) ''to'') (Get (urlQuery r) ''from'') = Zero False)"
  using assms
  by (simp add: getConvertFromFiatHandler_def Let_def replicate_8 rateOf_def)

theorem convertFromFiat_zero_rate_witness:
  "ParseFloat exampleOps (Get (urlQuery convertRequest) ''amount'') = Some (NonZero 6)
   \<and> Map.empty (Get (urlQuery convertRequest) ''to'') = (None :: (string \<rightharpoonup> nat float64) option)
   \<and> \<not> neqZero (rateOf (Map.empty :: string \<rightharpoonup> (string \<rightharpoonup> nat float64)) ''BTC'' ''USD'')
   \<and> getConvertFromFiatHandler exampleOps Map.empty convertRequest
       = Return (GoMap [(''success'', GoBool True), (''amount'', GoString ''0.00000000'')]) None
   \<and> neqZero (rateOf [''BTC'' \<mapsto> [''USD'' \<mapsto> NonZero (2::nat)]] ''BTC'' ''USD'')
   \<and> getConvertFromFiatHandler exampleOps [''BTC'' \<mapsto> [''USD'' \<mapsto> NonZero 2]] convertRequest
       = Return (GoMap [(''success'', GoBool True), (''amount'', GoString ''3.00000000'')]) None"
  using convertFromFiat_zero_rate [of exampleOps convertRequest "NonZero 6" Map.empty]
    convertFromFiat_zero_rate [of exampleOps convertRequest "NonZero 6"
      "[''BTC'' \<mapsto> [''USD'' \<mapsto> NonZero 2]]"]
  by (simp add: exampleOps_def convertRequest_def Get_def rateOf_def getConvertFromFiatHandler_def
      Let_def replicate_8)

end
